theory Spec2Isabelle
  imports Complex_Main
begin

section \<open>Python values and errors\<close>

text \<open>
  Request payloads are parsed JSON, so a Python value is one of the JSON shapes.
  Python's \<^verbatim>\<open>bool\<close> is a subclass of \<^verbatim>\<open>int\<close>: \<^verbatim>\<open>isinstance(True, int)\<close>
  holds and \<^verbatim>\<open>True\<close> counts as 1 in arithmetic and comparisons.
  Texts are modelled as \<^typ>\<open>string\<close>; the development is about ASCII text.
\<close>

datatype pyval =
    PNone
  | PBool bool
  | PInt int
  | PFloat real
  | PStr string
  | PList "pyval list"
  | PDict "(string \<times> pyval) list"

datatype py_error =
    ValueError string
  | TypeError
  | IndexError
  | DoesNotExist
  | IntegrityError
  | FileNotFoundError
  | RuntimeError
  | Http404
  | OtherError

fun truthy :: "pyval \<Rightarrow> bool" where
  "truthy PNone = False"
| "truthy (PBool b) = b"
| "truthy (PInt n) = (n \<noteq> 0)"
| "truthy (PFloat x) = (x \<noteq> 0)"
| "truthy (PStr s) = (s \<noteq> [])"
| "truthy (PList xs) = (xs \<noteq> [])"
| "truthy (PDict kvs) = (kvs \<noteq> [])"

text \<open>\<^verbatim>\<open>len(v)\<close>: \<open>None\<close> stands for the \<^verbatim>\<open>TypeError\<close> of a value without length.\<close>

fun py_len :: "pyval \<Rightarrow> nat option" where
  "py_len (PStr s) = Some (length s)"
| "py_len (PList xs) = Some (length xs)"
| "py_len (PDict kvs) = Some (length kvs)"
| "py_len _ = None"

text \<open>Iterating a value: a string yields its characters, a dict its keys.\<close>

fun py_iter :: "pyval \<Rightarrow> pyval list option" where
  "py_iter (PStr s) = Some (map (\<lambda>c. PStr [c]) s)"
| "py_iter (PList xs) = Some xs"
| "py_iter (PDict kvs) = Some (map (\<lambda>kv. PStr (fst kv)) kvs)"
| "py_iter _ = None"

text \<open>\<^verbatim>\<open>isinstance(v, int)\<close> and the integer such a value stands for.\<close>

fun isinstance_int :: "pyval \<Rightarrow> bool" where
  "isinstance_int (PInt n) = True"
| "isinstance_int (PBool b) = True"
| "isinstance_int _ = False"

fun int_value :: "pyval \<Rightarrow> int" where
  "int_value (PInt n) = n"
| "int_value (PBool b) = (if b then 1 else 0)"
| "int_value _ = 0"

subsection \<open>Formatting integers, as f-strings do\<close>

definition digit_char :: "nat \<Rightarrow> char" where
  "digit_char d = char_of (48 + d)"

fun str_nat :: "nat \<Rightarrow> string" where
  "str_nat n = (if n < 10 then [digit_char n] else str_nat (n div 10) @ [digit_char (n mod 10)])"

definition str_int :: "int \<Rightarrow> string" where
  "str_int i = (if i < 0 then CHR ''-'' # str_nat (nat (- i)) else str_nat (nat i))"

section \<open>Screening instruments (screening/models.py)\<close>

record Patient =
  patient_id :: int
  patient_user :: int
  firebase_uid :: string
  phone_number :: string

record PHQ9Screening =
  phq9_id :: int
  phq9_patient :: int
  q1_interest :: int
  q2_depressed :: int
  q3_sleep :: int
  q4_energy :: int
  q5_appetite :: int
  q6_self_esteem :: int
  q7_concentration :: int
  q8_psychomotor :: int
  q9_suicidal :: int
  phq9_total_score :: int
  phq9_severity_level :: string
  phq9_requires_immediate_attention :: bool
  phq9_requires_teleconsult :: bool
  phq9_risk_level :: string
  phq9_created_at :: int

record GAD7Screening =
  gad7_id :: int
  gad7_patient :: int
  q1_nervous :: int
  q2_worry :: int
  q3_worry_control :: int
  q4_trouble_relaxing :: int
  q5_restless :: int
  q6_irritable :: int
  q7_afraid :: int
  gad7_total_score :: int
  gad7_severity_level :: string
  gad7_requires_immediate_attention :: bool
  gad7_requires_teleconsult :: bool
  gad7_risk_level :: string
  gad7_created_at :: int

text \<open>
  \<^verbatim>\<open>PHQ9Screening.save\<close>: the derived fields are assigned on the instance before it is
  written. The two flags are only ever set to \<open>True\<close>; otherwise they keep the value the
  instance already has (\<open>False\<close> by the field default).
\<close>

definition PHQ9Screening_save :: "PHQ9Screening \<Rightarrow> PHQ9Screening" where
  "PHQ9Screening_save self =
    (let total = q1_interest self + q2_depressed self + q3_sleep self
               + q4_energy self + q5_appetite self + q6_self_esteem self
               + q7_concentration self + q8_psychomotor self + q9_suicidal self;
         severity = (if total \<le> 4 then ''minimal''
                     else if total \<le> 9 then ''mild''
                     else if total \<le> 14 then ''moderate''
                     else if total \<le> 19 then ''moderately_severe''
                     else ''severe'');
         self1 = self\<lparr>phq9_total_score := total, phq9_severity_level := severity\<rparr>
     in if total \<ge> 15 \<or> q9_suicidal self \<ge> 2 then
          self1\<lparr>phq9_requires_immediate_attention := True,
                 phq9_requires_teleconsult := True,
                 phq9_risk_level := ''critical''\<rparr>
        else if total \<ge> 10 then
          self1\<lparr>phq9_requires_teleconsult := True, phq9_risk_level := ''high''\<rparr>
        else if total \<ge> 5 then
          self1\<lparr>phq9_risk_level := ''medium''\<rparr>
        else
          self1\<lparr>phq9_risk_level := ''low''\<rparr>)"

definition GAD7Screening_save :: "GAD7Screening \<Rightarrow> GAD7Screening" where
  "GAD7Screening_save self =
    (let total = q1_nervous self + q2_worry self + q3_worry_control self
               + q4_trouble_relaxing self + q5_restless self + q6_irritable self
               + q7_afraid self;
         severity = (if total \<le> 4 then ''minimal''
                     else if total \<le> 9 then ''mild''
                     else if total \<le> 14 then ''moderate''
                     else ''severe'');
         self1 = self\<lparr>gad7_total_score := total, gad7_severity_level := severity\<rparr>
     in if total \<ge> 15 then
          self1\<lparr>gad7_requires_immediate_attention := True,
                 gad7_requires_teleconsult := True,
                 gad7_risk_level := ''critical''\<rparr>
        else if total \<ge> 10 then
          self1\<lparr>gad7_requires_teleconsult := True, gad7_risk_level := ''high''\<rparr>
        else if total \<ge> 5 then
          self1\<lparr>gad7_risk_level := ''medium''\<rparr>
        else
          self1\<lparr>gad7_risk_level := ''low''\<rparr>)"

text \<open>
  A new, unsaved instance as \<^verbatim>\<open>objects.create(patient=..., q1_...=..., ...)\<close> builds it:
  the answers as given, every other field at its default.
\<close>

definition new_phq9 :: "int \<Rightarrow> int list \<Rightarrow> PHQ9Screening" where
  "new_phq9 pid qs =
    \<lparr>phq9_id = 0, phq9_patient = pid,
     q1_interest = qs ! 0, q2_depressed = qs ! 1, q3_sleep = qs ! 2, q4_energy = qs ! 3,
     q5_appetite = qs ! 4, q6_self_esteem = qs ! 5, q7_concentration = qs ! 6,
     q8_psychomotor = qs ! 7, q9_suicidal = qs ! 8,
     phq9_total_score = 0, phq9_severity_level = [],
     phq9_requires_immediate_attention = False, phq9_requires_teleconsult = False,
     phq9_risk_level = [], phq9_created_at = 0\<rparr>"

definition new_gad7 :: "int \<Rightarrow> int list \<Rightarrow> GAD7Screening" where
  "new_gad7 pid qs =
    \<lparr>gad7_id = 0, gad7_patient = pid,
     q1_nervous = qs ! 0, q2_worry = qs ! 1, q3_worry_control = qs ! 2,
     q4_trouble_relaxing = qs ! 3, q5_restless = qs ! 4, q6_irritable = qs ! 5,
     q7_afraid = qs ! 6,
     gad7_total_score = 0, gad7_severity_level = [],
     gad7_requires_immediate_attention = False, gad7_requires_teleconsult = False,
     gad7_risk_level = [], gad7_created_at = 0\<rparr>"

section \<open>Rule engine scoring (screening/triage\_service.py)\<close>

record score_result =
  res_total_score :: int
  res_severity_level :: string
  res_severity_label :: string

definition get_phq9_severity :: "int \<Rightarrow> string" where
  "get_phq9_severity score =
    (if score \<le> 4 then ''minimal''
     else if score \<le> 9 then ''mild''
     else if score \<le> 14 then ''moderate''
     else if score \<le> 19 then ''moderately_severe''
     else ''severe'')"

definition get_gad7_severity :: "int \<Rightarrow> string" where
  "get_gad7_severity score =
    (if score \<le> 4 then ''minimal''
     else if score \<le> 9 then ''mild''
     else if score \<le> 14 then ''moderate''
     else ''severe'')"

definition get_severity_label :: "string \<Rightarrow> string" where
  "get_severity_label level =
    (if level = ''minimal'' then ''Minimal''
     else if level = ''mild'' then ''Mild''
     else if level = ''moderate'' then ''Moderate''
     else if level = ''moderately_severe'' then ''Moderately Severe''
     else if level = ''severe'' then ''Severe''
     else ''Unknown'')"

text \<open>
  The validation loop \<^verbatim>\<open>for i, answer in enumerate(answers)\<close>: the first offending
  entry raises, with its 1-based position in the message.
\<close>

fun validate_answers :: "string \<Rightarrow> nat \<Rightarrow> pyval list \<Rightarrow> py_error option" where
  "validate_answers name i [] = None"
| "validate_answers name i (answer # rest) =
    (if \<not> isinstance_int answer \<or> int_value answer < 0 \<or> int_value answer > 3
     then Some (ValueError (name @ '' answer '' @ str_nat (i + 1) @ '' must be between 0 and 3''))
     else validate_answers name (i + 1) rest)"

definition calculate_phq9 :: "pyval \<Rightarrow> py_error + score_result" where
  "calculate_phq9 answers =
    (if \<not> truthy answers then Inl (ValueError ''PHQ-9 requires exactly 9 answers (0-3 each)'')
     else if py_len answers = None then Inl TypeError
     else if py_len answers \<noteq> Some 9 then
       Inl (ValueError ''PHQ-9 requires exactly 9 answers (0-3 each)'')
     else if py_iter answers = None then Inl TypeError
     else if validate_answers ''PHQ-9'' 0 (the (py_iter answers)) \<noteq> None then
       Inl (the (validate_answers ''PHQ-9'' 0 (the (py_iter answers))))
     else
       (let total = sum_list (map int_value (the (py_iter answers)));
            level = get_phq9_severity total
        in Inr \<lparr>res_total_score = total, res_severity_level = level,
                res_severity_label = get_severity_label level\<rparr>))"

definition calculate_gad7 :: "pyval \<Rightarrow> py_error + score_result" where
  "calculate_gad7 answers =
    (if \<not> truthy answers then Inl (ValueError ''GAD-7 requires exactly 7 answers (0-3 each)'')
     else if py_len answers = None then Inl TypeError
     else if py_len answers \<noteq> Some 7 then
       Inl (ValueError ''GAD-7 requires exactly 7 answers (0-3 each)'')
     else if py_iter answers = None then Inl TypeError
     else if validate_answers ''GAD-7'' 0 (the (py_iter answers)) \<noteq> None then
       Inl (the (validate_answers ''GAD-7'' 0 (the (py_iter answers))))
     else
       (let total = sum_list (map int_value (the (py_iter answers)));
            level = get_gad7_severity total
        in Inr \<lparr>res_total_score = total, res_severity_level = level,
                res_severity_label = get_severity_label level\<rparr>))"

subsection \<open>Answer vectors of a record\<close>

definition phq9_answers :: "PHQ9Screening \<Rightarrow> int list" where
  "phq9_answers self =
    [q1_interest self, q2_depressed self, q3_sleep self, q4_energy self, q5_appetite self,
     q6_self_esteem self, q7_concentration self, q8_psychomotor self, q9_suicidal self]"

definition gad7_answers :: "GAD7Screening \<Rightarrow> int list" where
  "gad7_answers self =
    [q1_nervous self, q2_worry self, q3_worry_control self, q4_trouble_relaxing self,
     q5_restless self, q6_irritable self, q7_afraid self]"

definition in_range :: "int list \<Rightarrow> bool" where
  "in_range qs = list_all (\<lambda>q. 0 \<le> q \<and> q \<le> 3) qs"

section \<open>Text helpers\<close>

text \<open>\<^verbatim>\<open>k in text\<close> on strings: \<open>k\<close> occurs as a contiguous substring.\<close>

fun starts_with :: "string \<Rightarrow> string \<Rightarrow> bool" where
  "starts_with [] text = True"
| "starts_with (k # ks) [] = False"
| "starts_with (k # ks) (c # cs) = (k = c \<and> starts_with ks cs)"

fun contains :: "string \<Rightarrow> string \<Rightarrow> bool" where
  "contains k [] = (k = [])"
| "contains k (c # cs) = (starts_with k (c # cs) \<or> contains k cs)"

definition lower_char :: "char \<Rightarrow> char" where
  "lower_char c =
    (case map_of (zip ''ABCDEFGHIJKLMNOPQRSTUVWXYZ'' ''abcdefghijklmnopqrstuvwxyz'') c of
       Some l \<Rightarrow> l | None \<Rightarrow> c)"

definition upper_char :: "char \<Rightarrow> char" where
  "upper_char c =
    (case map_of (zip ''abcdefghijklmnopqrstuvwxyz'' ''ABCDEFGHIJKLMNOPQRSTUVWXYZ'') c of
       Some u \<Rightarrow> u | None \<Rightarrow> c)"

definition lower :: "string \<Rightarrow> string" where
  "lower text = map lower_char text"

definition upper :: "string \<Rightarrow> string" where
  "upper text = map upper_char text"

text \<open>The ASCII characters that \<^verbatim>\<open>str.strip()\<close> and \<^verbatim>\<open>str.split()\<close> treat as whitespace.\<close>

definition is_space :: "char \<Rightarrow> bool" where
  "is_space c = (c \<in> set [CHR 0x09, CHR 0x0A, CHR 0x0B, CHR 0x0C, CHR 0x0D,
                            CHR 0x1C, CHR 0x1D, CHR 0x1E, CHR 0x1F, CHR 0x20])"

definition strip :: "string \<Rightarrow> string" where
  "strip text = rev (dropWhile is_space (rev (dropWhile is_space text)))"

section \<open>The relational store\<close>

text \<open>
  Every table is the list of its rows in insertion order. Primary keys are assigned by
  the database, increasing; timestamps are read from a clock passed in as \<open>now\<close>
  (seconds). Rows are never deleted by this system.
\<close>

record User =
  user_id :: int
  username :: string

record ScreeningAlert =
  alert_id :: int
  alert_patient :: int
  alert_type :: string
  alert_message :: string
  is_resolved :: bool
  alert_created_at :: int
  resolved_at :: "int option"

record TeleconsultReferral =
  referral_id :: int
  referral_patient :: int
  referral_phq9_screening :: "int option"
  referral_gad7_screening :: "int option"
  referral_reason :: string
  referral_priority :: string
  referral_status :: string
  referral_created_at :: int

record ChatbotConversation =
  conversation_id :: int
  conversation_patient :: int
  session_id :: string

record ChatbotMessage =
  message_id :: int
  message_conversation :: int
  message_type :: string
  message_content :: string
  detected_emotion :: string
  emotion_confidence :: "real option"
  message_risk_level :: string
  message_risk_keywords :: "string list"
  message_created_at :: int

record Clinician =
  clinician_id :: int
  clinician_user :: int

record PatientAssignment =
  assignment_id :: int
  assignment_patient :: int
  assignment_clinician :: int
  assignment_is_active :: bool

record PatientTrend =
  trend_id :: int
  trend_patient :: int
  trend_date :: int
  trend_risk_level :: string

record TreatmentPlan =
  plan_id :: int
  plan_patient :: int
  plan_clinician :: int
  diagnosis :: string

record ClinicalNote =
  note_id :: int
  note_patient :: int
  note_clinician :: int
  note_content :: string

record AlertResponse =
  response_id :: int
  response_alert :: int
  response_clinician :: int
  response_text :: string

record SelfCarePathway =
  pathway_id :: int
  pathway_name :: string
  target_severity :: string
  pathway_is_active :: bool

text \<open>Jobs handed to the task queue with \<^verbatim>\<open>.delay(...)\<close>: alert id and priority.\<close>

datatype task = SendAlertNotification int string

record db =
  users :: "User list"
  patients :: "Patient list"
  phq9_screenings :: "PHQ9Screening list"
  gad7_screenings :: "GAD7Screening list"
  alerts :: "ScreeningAlert list"
  referrals :: "TeleconsultReferral list"
  task_queue :: "task list"
  conversations :: "ChatbotConversation list"
  messages :: "ChatbotMessage list"
  clinicians :: "Clinician list"
  assignments :: "PatientAssignment list"
  trends :: "PatientTrend list"
  treatment_plans :: "TreatmentPlan list"
  clinical_notes :: "ClinicalNote list"
  alert_responses :: "AlertResponse list"
  pathways :: "SelfCarePathway list"

definition empty_db :: db where
  "empty_db = \<lparr>users = [], patients = [], phq9_screenings = [], gad7_screenings = [],
     alerts = [], referrals = [], task_queue = [], conversations = [], messages = [],
     clinicians = [], assignments = [], trends = [], treatment_plans = [],
     clinical_notes = [], alert_responses = [], pathways = []\<rparr>"

subsection \<open>Query helpers\<close>

text \<open>The key the database gives the next inserted row.\<close>

definition next_id :: "int list \<Rightarrow> int" where
  "next_id ids = fold max ids 0 + 1"

text \<open>
  \<^verbatim>\<open>.order_by('-created_at').first()\<close>: the row with the greatest timestamp, \<open>None\<close>
  on an empty result. Among rows with equal timestamps the one met first is kept.
\<close>

fun newest :: "('a \<Rightarrow> int) \<Rightarrow> 'a list \<Rightarrow> 'a option" where
  "newest created [] = None"
| "newest created (r # rs) =
    (case newest created rs of
       None \<Rightarrow> Some r
     | Some m \<Rightarrow> if created m > created r then Some m else Some r)"

text \<open>
  \<^verbatim>\<open>.first()\<close> on a queryset without ordering (no \<^verbatim>\<open>order_by\<close>, no \<^verbatim>\<open>Meta.ordering\<close>):
  Django orders by primary key, so this is the row with the smallest key.
\<close>

fun first_by_pk :: "('a \<Rightarrow> int) \<Rightarrow> 'a list \<Rightarrow> 'a option" where
  "first_by_pk pk [] = None"
| "first_by_pk pk (r # rs) =
    (case first_by_pk pk rs of
       None \<Rightarrow> Some r
     | Some m \<Rightarrow> if pk m < pk r then Some m else Some r)"

definition days :: "int \<Rightarrow> int" where
  "days n = n * 86400"

section \<open>Rule engine (screening/triage\_service.py)\<close>

record triage_result =
  triageAction :: string
  recommendedModule :: "string option"
  alertCreated :: bool
  referralCreated :: bool

text \<open>
  \<^verbatim>\<open>_check_score_increase\<close>: the most recent screening of the patient created in the last
  14 days, whichever it is, is taken as the previous one.
\<close>

definition check_score_increase :: "db \<Rightarrow> int \<Rightarrow> Patient \<Rightarrow> string \<Rightarrow> int \<Rightarrow> int option" where
  "check_score_increase s now patient survey_type current_score =
    (let two_weeks_ago = now - days 14 in
     if survey_type = ''phq9'' then
       (case newest phq9_created_at
               (filter (\<lambda>r. phq9_patient r = patient_id patient
                            \<and> phq9_created_at r \<ge> two_weeks_ago) (phq9_screenings s)) of
          Some previous_screening \<Rightarrow>
            (let score_increase = current_score - phq9_total_score previous_screening
             in if score_increase \<ge> 5 then Some score_increase else None)
        | None \<Rightarrow> None)
     else if survey_type = ''gad7'' then
       (case newest gad7_created_at
               (filter (\<lambda>r. gad7_patient r = patient_id patient
                            \<and> gad7_created_at r \<ge> two_weeks_ago) (gad7_screenings s)) of
          Some previous_screening \<Rightarrow>
            (let score_increase = current_score - gad7_total_score previous_screening
             in if score_increase \<ge> 5 then Some score_increase else None)
        | None \<Rightarrow> None)
     else None)"

definition create_clinician_alert :: "db \<Rightarrow> int \<Rightarrow> Patient \<Rightarrow> string \<Rightarrow> int \<Rightarrow> db" where
  "create_clinician_alert s now patient survey_type score_increase =
    (let alert = \<lparr>alert_id = next_id (map alert_id (alerts s)),
                   alert_patient = patient_id patient,
                   alert_type = ''score_increase'',
                   alert_message = ''Significant '' @ upper survey_type @ '' score increase of ''
                      @ str_int score_increase
                      @ '' points within 2 weeks. Patient requires clinician review.'',
                   is_resolved = False, alert_created_at = now, resolved_at = None\<rparr>
     in s\<lparr>alerts := alerts s @ [alert],
           task_queue := task_queue s @ [SendAlertNotification (alert_id alert) ''high'']\<rparr>)"

definition create_teleconsult_referral :: "db \<Rightarrow> int \<Rightarrow> Patient \<Rightarrow> string \<Rightarrow> int \<Rightarrow> string \<Rightarrow> db" where
  "create_teleconsult_referral s now patient survey_type score reason =
    (let referral = \<lparr>referral_id = next_id (map referral_id (referrals s)),
                      referral_patient = patient_id patient,
                      referral_phq9_screening = None, referral_gad7_screening = None,
                      referral_reason = reason,
                      referral_priority = (if score \<ge> 15 then ''high'' else ''medium''),
                      referral_status = ''pending'', referral_created_at = now\<rparr>
     in s\<lparr>referrals := referrals s @ [referral]\<rparr>)"

definition get_self_care_recommendation :: "string \<Rightarrow> int \<Rightarrow> string \<Rightarrow> string" where
  "get_self_care_recommendation survey_type score severity_level =
    (if severity_level \<in> set [''minimal'', ''mild''] then
       (if survey_type = ''gad7'' then ''4-7-8 Breathing'' else ''Mindfulness Meditation'')
     else if severity_level = ''moderate'' then
       (if survey_type = ''gad7'' then ''Progressive Muscle Relaxation''
        else ''Journaling and Gratitude'')
     else ''Guided Relaxation Exercises'')"

text \<open>
  \<^verbatim>\<open>process_triage\<close>. The lookup \<^verbatim>\<open>Patient.objects.get(id=patient_id)\<close> raises
  \<^verbatim>\<open>Patient.DoesNotExist\<close> when no row has the key; the handler re-raises it as a
  \<^verbatim>\<open>ValueError\<close>.
\<close>

definition process_triage ::
  "db \<Rightarrow> int \<Rightarrow> int \<Rightarrow> string \<Rightarrow> int \<Rightarrow> string \<Rightarrow> py_error + (triage_result \<times> db)" where
  "process_triage s now pid survey_type score severity_level =
    (case find (\<lambda>p. patient_id p = pid) (patients s) of
       None \<Rightarrow> Inl (ValueError (''Patient with ID '' @ str_int pid @ '' not found''))
     | Some patient \<Rightarrow>
        (let (triage_action1, referral_created, s1) =
               (if survey_type = ''phq9'' \<and> score \<ge> 15 then
                  (''TriggerReferral'', True,
                   create_teleconsult_referral s now patient survey_type score
                     (''PHQ-9 score of '' @ str_int score @ '' indicates '' @ severity_level
                        @ '' depression''))
                else if survey_type = ''gad7'' \<and> score \<ge> 15 then
                  (''TriggerReferral'', True,
                   create_teleconsult_referral s now patient survey_type score
                     (''GAD-7 score of '' @ str_int score @ '' indicates '' @ severity_level
                        @ '' anxiety''))
                else (''None'', False, s));
             (triage_action2, alert_created, s2) =
               (if survey_type = ''phq9'' then
                  (case check_score_increase s1 now patient survey_type score of
                     Some score_increase \<Rightarrow>
                       (if score_increase \<noteq> 0 \<and> score_increase \<ge> 5 then
                          (if triage_action1 = ''None'' then ''TriggerClinicianAlert''
                           else triage_action1,
                           True,
                           create_clinician_alert s1 now patient survey_type score_increase)
                        else (triage_action1, False, s1))
                   | None \<Rightarrow> (triage_action1, False, s1))
                else (triage_action1, False, s1));
             (triage_action3, recommended_module) =
               (if triage_action2 = ''None'' then
                  (let recommended = get_self_care_recommendation survey_type score severity_level
                   in (if recommended \<noteq> [] then ''RecommendSelfCare'' else triage_action2,
                       Some recommended))
                else (triage_action2, None))
         in Inr (\<lparr>triageAction = triage_action3, recommendedModule = recommended_module,
                   alertCreated = alert_created, referralCreated = referral_created\<rparr>, s2)))"

section \<open>Survey submission (screening/survey\_views.py)\<close>

datatype 'a body = ErrorBody string | MessageBody string | Data 'a

record 'a response =
  status :: nat
  body :: "'a body"

text \<open>
  A request of an authenticated account (the endpoints require authentication): the
  account, and the two keys the handlers read from the JSON payload, \<open>None\<close> when the
  key is absent.
\<close>

record request =
  request_user :: User
  data_answers :: "pyval option"
  data_firebase_uid :: "string option"

record survey_response =
  totalScore :: int
  severityLevel :: string
  severityCode :: string
  resp_triageAction :: string
  resp_recommendedModule :: "string option"
  screeningId :: int
  resp_message :: string

definition get_or_create_patient :: "db \<Rightarrow> request \<Rightarrow> py_error + (Patient \<times> db)" where
  "get_or_create_patient s req =
    (case find (\<lambda>p. patient_user p = user_id (request_user req)) (patients s) of
       Some patient \<Rightarrow> Inr (patient, s)
     | None \<Rightarrow>
        (let uid_given = (case data_firebase_uid req of None \<Rightarrow> [] | Some u \<Rightarrow> u);
             uid = (if uid_given \<noteq> [] then uid_given else username (request_user req))
         in if \<exists>p \<in> set (patients s). firebase_uid p = uid then Inl IntegrityError
            else
              (let patient = \<lparr>patient_id = next_id (map patient_id (patients s)),
                               patient_user = user_id (request_user req),
                               firebase_uid = uid, phone_number = []\<rparr>
               in Inr (patient, s\<lparr>patients := patients s @ [patient]\<rparr>))))"

text \<open>\<^verbatim>\<open>PHQ9Screening.objects.create(**screening_data)\<close>: build, save, insert.\<close>

definition create_phq9 :: "db \<Rightarrow> int \<Rightarrow> int \<Rightarrow> int list \<Rightarrow> PHQ9Screening \<times> db" where
  "create_phq9 s now pid qs =
    (let screening = (PHQ9Screening_save (new_phq9 pid qs))
                       \<lparr>phq9_id := next_id (map phq9_id (phq9_screenings s)),
                        phq9_created_at := now\<rparr>
     in (screening, s\<lparr>phq9_screenings := phq9_screenings s @ [screening]\<rparr>))"

definition create_gad7 :: "db \<Rightarrow> int \<Rightarrow> int \<Rightarrow> int list \<Rightarrow> GAD7Screening \<times> db" where
  "create_gad7 s now pid qs =
    (let screening = (GAD7Screening_save (new_gad7 pid qs))
                       \<lparr>gad7_id := next_id (map gad7_id (gad7_screenings s)),
                        gad7_created_at := now\<rparr>
     in (screening, s\<lparr>gad7_screenings := gad7_screenings s @ [screening]\<rparr>))"

definition get_action_message :: "string \<Rightarrow> string \<Rightarrow> string option \<Rightarrow> string" where
  "get_action_message triage_action label recommended =
    (if triage_action = ''TriggerReferral'' then
       ''Your '' @ label @ '' symptoms indicate you may benefit from professional support. A teleconsultation referral has been created.''
     else if triage_action = ''TriggerClinicianAlert'' then
       ''Your symptoms have changed significantly. A clinician will review your case.''
     else if triage_action = ''RecommendSelfCare'' then
       ''Based on your assessment, we recommend trying: ''
         @ (case recommended of None \<Rightarrow> ''None'' | Some m \<Rightarrow> m)
         @ ''. This can help manage your symptoms.''
     else if triage_action = ''None'' then
       ''Thank you for completing the assessment. Continue monitoring your symptoms.''
     else ''Assessment completed successfully.'')"

text \<open>
  The two \<^verbatim>\<open>except\<close> clauses of the submission handlers: a \<^verbatim>\<open>ValueError\<close> becomes
  HTTP 400 with its message, any other exception HTTP 500.
\<close>

fun error_text :: "py_error \<Rightarrow> string" where
  "error_text (ValueError m) = m"
| "error_text TypeError = ''TypeError''"
| "error_text IndexError = ''IndexError''"
| "error_text DoesNotExist = ''DoesNotExist''"
| "error_text IntegrityError = ''IntegrityError''"
| "error_text FileNotFoundError = ''FileNotFoundError''"
| "error_text RuntimeError = ''RuntimeError''"
| "error_text Http404 = ''Http404''"
| "error_text OtherError = ''Exception''"

fun exception_response :: "py_error \<Rightarrow> 'a response" where
  "exception_response (ValueError m) = \<lparr>status = 400, body = ErrorBody m\<rparr>"
| "exception_response e = \<lparr>status = 500, body = ErrorBody (''An error occurred: '' @ error_text e)\<rparr>"

text \<open>
  \<^verbatim>\<open>answers[0]\<close>, ..., \<^verbatim>\<open>answers[n-1]\<close> of the submitted value, as the integers the
  integer columns store. Indexing anything but a long enough list raises.
\<close>

definition answer_fields :: "nat \<Rightarrow> pyval \<Rightarrow> py_error + int list" where
  "answer_fields n answers =
    (case answers of
       PList xs \<Rightarrow> if length xs \<ge> n then Inr (map int_value (take n xs)) else Inl IndexError
     | _ \<Rightarrow> Inl TypeError)"

definition submit_phq9 :: "db \<Rightarrow> int \<Rightarrow> request \<Rightarrow> survey_response response \<times> db" where
  "submit_phq9 s now req =
    (let answers = (case data_answers req of None \<Rightarrow> PList [] | Some a \<Rightarrow> a) in
     if \<not> truthy answers then
       (\<lparr>status = 400, body = ErrorBody ''Answers array is required''\<rparr>, s)
     else case calculate_phq9 answers of
       Inl e \<Rightarrow> (exception_response e, s)
     | Inr score_result \<Rightarrow>
        (case get_or_create_patient s req of
           Inl e \<Rightarrow> (exception_response e, s)
         | Inr (patient, s1) \<Rightarrow>
            (case answer_fields 9 answers of
               Inl e \<Rightarrow> (exception_response e, s1)
             | Inr qs \<Rightarrow>
                (let (screening, s2) = create_phq9 s1 now (patient_id patient) qs in
                 case process_triage s2 now (patient_id patient) ''phq9''
                        (res_total_score score_result) (res_severity_level score_result) of
                   Inl e \<Rightarrow> (exception_response e, s2)
                 | Inr (triage, s3) \<Rightarrow>
                    (\<lparr>status = 201,
                      body = Data \<lparr>totalScore = res_total_score score_result,
                                   severityLevel = res_severity_label score_result,
                                   severityCode = res_severity_level score_result,
                                   resp_triageAction = triageAction triage,
                                   resp_recommendedModule = recommendedModule triage,
                                   screeningId = phq9_id screening,
                                   resp_message = get_action_message (triageAction triage)
                                     (res_severity_label score_result) (recommendedModule triage)\<rparr>\<rparr>,
                     s3)))))"

definition submit_gad7 :: "db \<Rightarrow> int \<Rightarrow> request \<Rightarrow> survey_response response \<times> db" where
  "submit_gad7 s now req =
    (let answers = (case data_answers req of None \<Rightarrow> PList [] | Some a \<Rightarrow> a) in
     if \<not> truthy answers then
       (\<lparr>status = 400, body = ErrorBody ''Answers array is required''\<rparr>, s)
     else case calculate_gad7 answers of
       Inl e \<Rightarrow> (exception_response e, s)
     | Inr score_result \<Rightarrow>
        (case get_or_create_patient s req of
           Inl e \<Rightarrow> (exception_response e, s)
         | Inr (patient, s1) \<Rightarrow>
            (case answer_fields 7 answers of
               Inl e \<Rightarrow> (exception_response e, s1)
             | Inr qs \<Rightarrow>
                (let (screening, s2) = create_gad7 s1 now (patient_id patient) qs in
                 case process_triage s2 now (patient_id patient) ''gad7''
                        (res_total_score score_result) (res_severity_level score_result) of
                   Inl e \<Rightarrow> (exception_response e, s2)
                 | Inr (triage, s3) \<Rightarrow>
                    (\<lparr>status = 201,
                      body = Data \<lparr>totalScore = res_total_score score_result,
                                   severityLevel = res_severity_label score_result,
                                   severityCode = res_severity_level score_result,
                                   resp_triageAction = triageAction triage,
                                   resp_recommendedModule = recommendedModule triage,
                                   screeningId = gad7_id screening,
                                   resp_message = get_action_message (triageAction triage)
                                     (res_severity_label score_result) (recommendedModule triage)\<rparr>\<rparr>,
                     s3)))))"

subsection \<open>Rejected answer arrays\<close>

text \<open>
  The ways a submitted answers array fails validation: the key is missing, the array is
  empty or has the wrong length, or an entry is not an integer in the sense of
  \<^verbatim>\<open>isinstance(answer, int)\<close> or lies outside 0..3.
\<close>

definition bad_answer :: "pyval \<Rightarrow> bool" where
  "bad_answer e = (\<not> isinstance_int e \<or> int_value e < 0 \<or> int_value e > 3)"

definition invalid_answers :: "nat \<Rightarrow> pyval option \<Rightarrow> bool" where
  "invalid_answers n a =
    (case a of
       None \<Rightarrow> True
     | Some (PList xs) \<Rightarrow> length xs \<noteq> n \<or> list_ex bad_answer xs
     | Some _ \<Rightarrow> False)"

text \<open>\<^verbatim>\<open>Http404\<close> is the exception class the framework answers with HTTP 404.\<close>

definition fails_with_not_found :: "py_error + 'a \<Rightarrow> bool" where
  "fails_with_not_found r = (case r of Inl e \<Rightarrow> e = Http404 | Inr x \<Rightarrow> False)"

subsection \<open>A patient submitting two PHQ-9 surveys three days apart\<close>

definition alice :: User where
  "alice = \<lparr>user_id = 1, username = ''alice''\<rparr>"

definition phq9_request :: "int list \<Rightarrow> request" where
  "phq9_request qs =
    \<lparr>request_user = alice, data_answers = Some (PList (map PInt qs)),
     data_firebase_uid = None\<rparr>"

definition after_first_submission :: db where
  "after_first_submission =
     snd (submit_phq9 (empty_db\<lparr>users := [alice]\<rparr>) 1000
            (phq9_request [0, 1, 2, 1, 0, 2, 1, 0, 1]))"

definition after_second_saved :: db where
  "after_second_saved =
     snd (create_phq9 after_first_submission (1000 + days 3) 1 [2, 2, 2, 2, 2, 2, 1, 1, 0])"

section \<open>Latest screening (screening/views.py)\<close>

text \<open>
  \<^verbatim>\<open>PHQ9ScreeningViewSet.latest\<close> and \<^verbatim>\<open>GAD7ScreeningViewSet.latest\<close>. The lookup
  \<^verbatim>\<open>Patient.objects.get(user=request.user)\<close> is not guarded, so a caller without a
  Patient row ends in \<^verbatim>\<open>Patient.DoesNotExist\<close>. The screening is taken with
  \<^verbatim>\<open>.filter(patient=patient).first()\<close>; neither screening model declares an ordering.
\<close>

definition PHQ9ScreeningViewSet_latest :: "db \<Rightarrow> User \<Rightarrow> py_error + PHQ9Screening response" where
  "PHQ9ScreeningViewSet_latest s user =
    (case find (\<lambda>p. patient_user p = user_id user) (patients s) of
       None \<Rightarrow> Inl DoesNotExist
     | Some patient \<Rightarrow>
        (case first_by_pk phq9_id
                (filter (\<lambda>r. phq9_patient r = patient_id patient) (phq9_screenings s)) of
           Some latest_screening \<Rightarrow> Inr \<lparr>status = 200, body = Data latest_screening\<rparr>
         | None \<Rightarrow> Inr \<lparr>status = 404, body = MessageBody ''No screenings found''\<rparr>))"

definition GAD7ScreeningViewSet_latest :: "db \<Rightarrow> User \<Rightarrow> py_error + GAD7Screening response" where
  "GAD7ScreeningViewSet_latest s user =
    (case find (\<lambda>p. patient_user p = user_id user) (patients s) of
       None \<Rightarrow> Inl DoesNotExist
     | Some patient \<Rightarrow>
        (case first_by_pk gad7_id
                (filter (\<lambda>r. gad7_patient r = patient_id patient) (gad7_screenings s)) of
           Some latest_screening \<Rightarrow> Inr \<lparr>status = 200, body = Data latest_screening\<rparr>
         | None \<Rightarrow> Inr \<lparr>status = 404, body = MessageBody ''No screenings found''\<rparr>))"

section \<open>Recommended pathways (selfcare/views.py)\<close>

definition tier_of_score :: "int \<Rightarrow> string" where
  "tier_of_score max_score =
    (if max_score \<ge> 15 then ''severe''
     else if max_score \<ge> 10 then ''moderate''
     else if max_score \<ge> 5 then ''mild''
     else ''minimal'')"

definition SelfCarePathwayViewSet_recommended :: "db \<Rightarrow> User \<Rightarrow> SelfCarePathway list response" where
  "SelfCarePathwayViewSet_recommended s user =
    (case find (\<lambda>p. patient_user p = user_id user) (patients s) of
       None \<Rightarrow> \<lparr>status = 404, body = ErrorBody ''Patient not found''\<rparr>
     | Some patient \<Rightarrow>
        (let latest_phq9 = first_by_pk phq9_id
               (filter (\<lambda>r. phq9_patient r = patient_id patient) (phq9_screenings s));
             latest_gad7 = first_by_pk gad7_id
               (filter (\<lambda>r. gad7_patient r = patient_id patient) (gad7_screenings s));
             target =
               (case (latest_phq9, latest_gad7) of
                  (Some p9, Some g7) \<Rightarrow>
                     tier_of_score (max (phq9_total_score p9) (gad7_total_score g7))
                | _ \<Rightarrow> ''minimal'')
         in \<lparr>status = 200,
             body = Data (filter (\<lambda>w. pathway_is_active w \<and> target_severity w = target)
                            (pathways s))\<rparr>))"

subsection \<open>The recommendation as the specification words it\<close>

text \<open>
  The tier is read off the maximum of the caller's most recent PHQ-9 and GAD-7 totals,
  whichever of them exist, and is minimal when the caller has no screening.
\<close>

definition spec_recommended_tier :: "db \<Rightarrow> Patient \<Rightarrow> string" where
  "spec_recommended_tier s patient =
    (let latest_scores =
           (case newest phq9_created_at
                   (filter (\<lambda>r. phq9_patient r = patient_id patient) (phq9_screenings s)) of
              None \<Rightarrow> [] | Some p9 \<Rightarrow> [phq9_total_score p9])
         @ (case newest gad7_created_at
                   (filter (\<lambda>r. gad7_patient r = patient_id patient) (gad7_screenings s)) of
              None \<Rightarrow> [] | Some g7 \<Rightarrow> [gad7_total_score g7])
     in if latest_scores = [] then ''minimal'' else tier_of_score (fold max latest_scores 0))"

definition spec_recommended :: "db \<Rightarrow> Patient \<Rightarrow> SelfCarePathway list" where
  "spec_recommended s patient =
     filter (\<lambda>w. pathway_is_active w \<and> target_severity w = spec_recommended_tier s patient)
       (pathways s)"

subsection \<open>Sample catalogue and stores\<close>

definition catalogue :: "SelfCarePathway list" where
  "catalogue =
    [\<lparr>pathway_id = 1, pathway_name = ''Staying well'', target_severity = ''minimal'',
      pathway_is_active = True\<rparr>,
     \<lparr>pathway_id = 2, pathway_name = ''First steps'', target_severity = ''mild'',
      pathway_is_active = True\<rparr>,
     \<lparr>pathway_id = 3, pathway_name = ''Intensive support'', target_severity = ''severe'',
      pathway_is_active = True\<rparr>,
     \<lparr>pathway_id = 4, pathway_name = ''Retired'', target_severity = ''mild'',
      pathway_is_active = False\<rparr>]"

definition only_severe_phq9 :: db where
  "only_severe_phq9 =
     snd (submit_phq9 (empty_db\<lparr>users := [alice], pathways := catalogue\<rparr>) 1000
            (phq9_request [3, 3, 3, 3, 3, 3, 2, 0, 0]))"

definition both_instruments :: db where
  "both_instruments =
     snd (submit_gad7 (after_first_submission\<lparr>pathways := catalogue\<rparr>) 5000
            (phq9_request [0, 1, 0, 1, 0, 1, 0]))"

definition after_two_gad7 :: db where
  "after_two_gad7 =
     snd (submit_gad7 (snd (submit_gad7 (empty_db\<lparr>users := [alice]\<rparr>) 1000
                              (phq9_request [1, 1, 1, 1, 1, 1, 1])))
            (1000 + days 3) (phq9_request [3, 3, 2, 2, 1, 1, 0]))"

definition alice_patient :: Patient where
  "alice_patient = \<lparr>patient_id = 1, patient_user = 1, firebase_uid = ''alice'', phone_number = []\<rparr>"

section \<open>Intent recognition (screening/intent\_recognizer.py)\<close>

text \<open>
  The trained pipeline and the text preprocessing are library code; they enter as
  functions that may raise. Confidences and thresholds are reals.
\<close>

record pipeline =
  preprocess :: "string \<Rightarrow> string"
  predict :: "string \<Rightarrow> py_error + string"
  predict_confidence :: "string \<Rightarrow> string \<Rightarrow> py_error + real"

text \<open>What the constructor finds where the model file should be.\<close>

datatype model_file = NoModelFile | UnreadableModelFile | ModelFile "pipeline option"

record IntentRecognizer =
  recognizer_pipeline :: "pipeline option"

text \<open>
  The module's global \<^verbatim>\<open>_recognizer_instance\<close>, with a count of the calls made to the
  pipeline's \<^verbatim>\<open>predict\<close>.
\<close>

record intent_state =
  recognizer_instance :: "IntentRecognizer option"
  model_calls :: nat

datatype intent_result = Tag string | TagConfidence string real

definition new_IntentRecognizer :: "model_file \<Rightarrow> py_error + IntentRecognizer" where
  "new_IntentRecognizer file =
    (case file of
       NoModelFile \<Rightarrow> Inl FileNotFoundError
     | UnreadableModelFile \<Rightarrow> Inl RuntimeError
     | ModelFile p \<Rightarrow> Inr \<lparr>recognizer_pipeline = p\<rparr>)"

definition unknown_result :: "bool \<Rightarrow> intent_result" where
  "unknown_result return_confidence =
    (if return_confidence then TagConfidence ''unknown'' 0 else Tag ''unknown'')"

text \<open>\<^verbatim>\<open>IntentRecognizer.predict_intent\<close>; the result comes with the new call count.\<close>

definition IntentRecognizer_predict_intent ::
  "IntentRecognizer \<Rightarrow> nat \<Rightarrow> string \<Rightarrow> bool \<Rightarrow> (py_error + intent_result) \<times> nat" where
  "IntentRecognizer_predict_intent self calls text return_confidence =
    (case recognizer_pipeline self of
       None \<Rightarrow> (Inl RuntimeError, calls)
     | Some p \<Rightarrow>
        if text = [] \<or> strip text = [] then (Inr (unknown_result return_confidence), calls)
        else
          (let preprocessed = preprocess p text in
           case predict p preprocessed of
             Inl e \<Rightarrow> (Inr (unknown_result return_confidence), calls + 1)
           | Inr predicted_tag \<Rightarrow>
              if return_confidence then
                (case predict_confidence p preprocessed predicted_tag of
                   Inl e \<Rightarrow> (Inr (unknown_result return_confidence), calls + 1)
                 | Inr confidence \<Rightarrow> (Inr (TagConfidence predicted_tag confidence), calls + 1))
              else (Inr (Tag predicted_tag), calls + 1)))"

definition DEFAULT_CONFIDENCE_THRESHOLD :: real where
  "DEFAULT_CONFIDENCE_THRESHOLD = 0.6"

text \<open>
  Unpacking \<^verbatim>\<open>tag, confidence = result\<close> and the threshold test of the module-level
  function.
\<close>

definition apply_threshold :: "intent_result \<Rightarrow> real \<Rightarrow> py_error + (string \<times> real)" where
  "apply_threshold result confidence_threshold =
    (case result of
       TagConfidence tag confidence \<Rightarrow>
         Inr (if confidence < confidence_threshold then ''out_of_scope'' else tag, confidence)
     | Tag tag \<Rightarrow> Inl (ValueError ''too many values to unpack''))"

text \<open>The module-level \<^verbatim>\<open>predict_intent\<close>, creating the singleton on first use.\<close>

definition predict_intent ::
  "model_file \<Rightarrow> intent_state \<Rightarrow> string \<Rightarrow> bool \<Rightarrow> real
     \<Rightarrow> (py_error + intent_result) \<times> intent_state" where
  "predict_intent file st text return_confidence confidence_threshold =
    (case (case recognizer_instance st of
             Some r \<Rightarrow> Inr r
           | None \<Rightarrow> new_IntentRecognizer file) of
       Inl FileNotFoundError \<Rightarrow> (Inr (unknown_result return_confidence), st)
     | Inl e \<Rightarrow> (Inl e, st)
     | Inr recognizer \<Rightarrow>
        (let st1 = st\<lparr>recognizer_instance := Some recognizer\<rparr>;
             (result, calls1) =
                IntentRecognizer_predict_intent recognizer (model_calls st1) text return_confidence;
             st2 = st1\<lparr>model_calls := calls1\<rparr>
         in case result of
              Inl e \<Rightarrow> (Inl e, st2)
            | Inr res \<Rightarrow>
               if return_confidence then
                 (case apply_threshold res confidence_threshold of
                    Inl e \<Rightarrow> (Inl e, st2)
                  | Inr (tag, confidence) \<Rightarrow> (Inr (TagConfidence tag confidence), st2))
               else
                 (let (result2, calls2) =
                        IntentRecognizer_predict_intent recognizer calls1 text True;
                      st3 = st2\<lparr>model_calls := calls2\<rparr>
                  in case result2 of
                       Inl e \<Rightarrow> (Inl e, st3)
                     | Inr res2 \<Rightarrow>
                        (case apply_threshold res2 confidence_threshold of
                           Inl e \<Rightarrow> (Inl e, st3)
                         | Inr (tag, confidence) \<Rightarrow> (Inr (Tag tag), st3)))))"

definition blank :: "string \<Rightarrow> bool" where
  "blank text = list_all is_space text"

text \<open>A pipeline that always answers greeting with confidence 0.9.\<close>

definition greeting_pipeline :: pipeline where
  "greeting_pipeline =
    \<lparr>preprocess = lower, predict = (\<lambda>t. Inr ''greeting''),
     predict_confidence = (\<lambda>t tag. Inr 0.9)\<rparr>"

definition fresh_intent_state :: intent_state where
  "fresh_intent_state = \<lparr>recognizer_instance = None, model_calls = 0\<rparr>"

section \<open>Emotion and risk detection (screening/nlp\_utils.py)\<close>

text \<open>
  \<^verbatim>\<open>detect_emotions\<close> scores the emotion categories by regular-expression matches and
  floating-point normalisation. Its result enters the model as a function from the text
  to the items of the returned dict, in insertion order; everything built on it is
  modelled from the source.
\<close>

type_synonym emotions = "(string \<times> real) list"

definition emotions_get :: "emotions \<Rightarrow> string \<Rightarrow> real" where
  "emotions_get emotions k = (case map_of emotions k of None \<Rightarrow> 0 | Some v \<Rightarrow> v)"

text \<open>\<^verbatim>\<open>max(items, key=...)\<close>: the first item with the greatest score.\<close>

fun max_item :: "string \<times> real \<Rightarrow> emotions \<Rightarrow> string \<times> real" where
  "max_item best [] = best"
| "max_item best (x # xs) = max_item (if snd x > snd best then x else best) xs"

definition get_primary_emotion :: "(string \<Rightarrow> emotions) \<Rightarrow> string \<Rightarrow> string \<times> real" where
  "get_primary_emotion detect_emotions text =
    (case detect_emotions text of
       [] \<Rightarrow> (''neutral'', 1)
     | e # es \<Rightarrow> max_item e es)"

definition suicidal_keywords :: "string list" where
  "suicidal_keywords =
    [''suicide'', ''kill myself'', ''end it all'', ''not worth living'',
     ''better off dead'', ''want to die'', ''no point'']"

definition self_harm_keywords :: "string list" where
  "self_harm_keywords = [''hurt myself'', ''cut myself'', ''self harm'', ''harm myself'']"

definition detect_risk_keywords :: "string \<Rightarrow> string list" where
  "detect_risk_keywords text =
    (let text_lower = lower text in
       (if list_ex (\<lambda>keyword. contains keyword text_lower) suicidal_keywords
        then [''suicidal_ideation''] else [])
     @ (if list_ex (\<lambda>keyword. contains keyword text_lower) self_harm_keywords
        then [''self_harm''] else []))"

definition assess_risk_level :: "(string \<Rightarrow> emotions) \<Rightarrow> string \<Rightarrow> string" where
  "assess_risk_level detect_emotions text =
    (if detect_risk_keywords text \<noteq> [] then ''critical''
     else
       (let emotions = detect_emotions text in
        if emotions_get emotions ''suicidal'' > 0 then ''critical''
        else if emotions_get emotions ''sad'' > 0.5 \<or> emotions_get emotions ''anxious'' > 0.5
          then ''high''
        else if emotions_get emotions ''sad'' > 0.2 \<or> emotions_get emotions ''anxious'' > 0.2
          then ''medium''
        else ''low''))"

text \<open>\<^verbatim>\<open>len(text.split())\<close>: the number of maximal runs of non-whitespace.\<close>

fun count_words :: "bool \<Rightarrow> string \<Rightarrow> nat" where
  "count_words in_word [] = 0"
| "count_words in_word (c # cs) =
    (if is_space c then count_words False cs
     else (if in_word then 0 else 1) + count_words True cs)"

record emotional_context =
  ctx_emotions :: emotions
  ctx_primary_emotion :: string
  ctx_confidence :: real
  ctx_risk_level :: string
  ctx_risk_keywords :: "string list"
  ctx_text_length :: nat
  ctx_word_count :: nat

definition get_emotional_context :: "(string \<Rightarrow> emotions) \<Rightarrow> string \<Rightarrow> emotional_context" where
  "get_emotional_context detect_emotions text =
    (let emotions = detect_emotions text;
         (primary_emotion, confidence) = get_primary_emotion detect_emotions text;
         risk_level = assess_risk_level detect_emotions text;
         risk_keywords = detect_risk_keywords text
     in \<lparr>ctx_emotions = emotions, ctx_primary_emotion = primary_emotion,
         ctx_confidence = confidence, ctx_risk_level = risk_level,
         ctx_risk_keywords = risk_keywords, ctx_text_length = length text,
         ctx_word_count = count_words False text\<rparr>)"

section \<open>Comprehensive assessment (screening/triage\_service.py)\<close>

definition get_treatment_recommendations :: "string \<Rightarrow> string list" where
  "get_treatment_recommendations risk_level =
    (if risk_level = ''critical'' then
       [''Immediate crisis intervention'', ''Crisis hotline: 988'',
        ''Emergency services: 911'', ''24/7 monitoring required'']
     else if risk_level = ''high'' then
       [''Urgent teleconsultation within 24 hours'', ''Consider medication evaluation'',
        ''Intensive therapy program'', ''Regular safety checks'']
     else if risk_level = ''medium'' then
       [''Teleconsultation within 1 week'', ''Self-care pathway activation'',
        ''Regular mood monitoring'', ''Therapy referral'']
     else if risk_level = ''low'' then
       [''Self-care pathway'', ''Regular screening'', ''Lifestyle modifications'',
        ''Preventive measures'']
     else [])"

text \<open>\<^verbatim>\<open>score and score >= n\<close> on an optional score: \<open>None\<close> and 0 are falsy.\<close>

definition score_at_least :: "int option \<Rightarrow> int \<Rightarrow> bool" where
  "score_at_least score n = (case score of None \<Rightarrow> False | Some v \<Rightarrow> v \<noteq> 0 \<and> v \<ge> n)"

record comprehensive_assessment =
  riskLevel :: string
  phq9Score :: "int option"
  gad7Score :: "int option"
  recommendations :: "string list"

definition get_comprehensive_assessment ::
  "int option \<Rightarrow> int option \<Rightarrow> bool \<Rightarrow> comprehensive_assessment" where
  "get_comprehensive_assessment phq9_score gad7_score suicidal_ideation =
    (let risk_level =
           (if suicidal_ideation then ''critical''
            else if score_at_least phq9_score 20 \<or> score_at_least gad7_score 15 then ''critical''
            else if score_at_least phq9_score 15 \<or> score_at_least gad7_score 10 then ''high''
            else if score_at_least phq9_score 10 \<or> score_at_least gad7_score 7 then ''medium''
            else ''low'')
     in \<lparr>riskLevel = risk_level, phq9Score = phq9_score, gad7Score = gad7_score,
         recommendations = get_treatment_recommendations risk_level\<rparr>)"

section \<open>Chatbot replies (screening/views.py)\<close>

text \<open>
  The reply templates, byte for byte as the source file has them (UTF-8). The bullet of
  the lists is the three-character sequence the file contains.
\<close>

definition bullet :: string where
  "bullet = [CHR 0xE2, CHR 0x80, CHR 0x9A, CHR 0xC3, CHR 0x84, CHR 0xC2, CHR 0xA2]"

definition crisis_response :: string where
  "crisis_response =
     ''I'm concerned about what you're sharing. Your safety is important. ''
     @ ''Please reach out for immediate help:\<newline>\<newline>''
     @ bullet
     @ '' Crisis Hotline: 988 (available 24/7)\<newline>''
     @ bullet
     @ '' Text HOME to: 741741\<newline>''
     @ bullet
     @ '' Emergency: 911\<newline>\<newline>Would you like me to help you ''
     @ ''connect with a mental health professional? I'm here to support you.''"

definition screening_nav_response :: string where
  "screening_nav_response =
     ''Great ''
     @ [CHR 0xE2, CHR 0x80, CHR 0x9A, CHR 0xC3, CHR 0x84, CHR 0xC3, CHR 0xAE]
     @ '' let's get you to the screenings. We have PHQ-9 (depression) and GAD-7 ''
     @ ''(anxiety).\<newline>\<newline>You can start from the Screening ''
     @ ''section. Would you like me to take you there now?''"

definition self_care_nav_response :: string where
  "self_care_nav_response =
     ''Self-care coming right up. We offer guided breathing, mindfulness, ''
     @ ''journaling and more.\<newline>\<newline>Open the Self-Care section and ''
     @ ''I can recommend something to match your current mood.''"

definition dashboard_nav_response :: string where
  "dashboard_nav_response =
     ''Your dashboard shows trends, latest PHQ-9/GAD-7 results, and ''
     @ ''recommendations.\<newline>\<newline>Shall I open the Dashboard for you?''"

definition capability_menu_response :: string where
  "capability_menu_response =
     ''I'm focused on supporting your mental health journey. I can help you ''
     @ ''with:\<newline>''
     @ bullet
     @ '' Screening tests (PHQ-9, GAD-7)\<newline>''
     @ bullet
     @ '' Self-care exercises\<newline>''
     @ bullet
     @ '' Your dashboard and progress\<newline>\<newline>Which would you like ''
     @ ''to open?''"

definition greeting_response :: string where
  "greeting_response =
     ''Hello! I'm here to support you. How are you feeling today? You can ''
     @ ''share what's on your mind, or I can help you navigate the app.''"

definition find_screening_response :: string where
  "find_screening_response =
     ''I can help you take a screening test! We have:\<newline>''
     @ bullet
     @ '' PHQ-9: For depression symptoms\<newline>''
     @ bullet
     @ '' GAD-7: For anxiety symptoms\<newline>\<newline>These take just a few ''
     @ ''minutes and give you clear next steps.\<newline>\<newline>[Go to ''
     @ ''Screening]''"

definition find_self_care_response :: string where
  "find_self_care_response =
     ''Great! I can help you find self-care exercises. We have:\<newline>''
     @ bullet
     @ '' Breathing exercises\<newline>''
     @ bullet
     @ '' Mindfulness meditation\<newline>''
     @ bullet
     @ '' Journaling prompts\<newline>''
     @ bullet
     @ '' Stress management techniques\<newline>\<newline>''"

definition view_dashboard_response :: string where
  "view_dashboard_response =
     ''Your dashboard shows your mental health journey, including:\<newline>''
     @ bullet
     @ '' Your screening test results\<newline>''
     @ bullet
     @ '' Progress over time\<newline>''
     @ bullet
     @ '' Personalized recommendations\<newline>\<newline>[Open Dashboard]''"

definition need_help_response :: string where
  "need_help_response =
     ''I'm here to help! Here's what I can assist you ''
     @ ''with:\<newline>\<newline>''
     @ [CHR 0xEF, CHR 0xA3, CHR 0xBF, CHR 0xC3, CHR 0xBC, CHR 0xC3, CHR 0xAE, CHR 0xC3, CHR 0xA7]
     @ '' **Screening Tests**: Take PHQ-9 or GAD-7 assessments\<newline>''
     @ [CHR 0xEF, CHR 0xA3, CHR 0xBF, CHR 0xC3, CHR 0xBC, CHR 0xC3, CHR 0x9F, CHR 0xC3, CHR 0xB2]
     @ '' **Self-Care**: Access mindfulness, breathing, and wellness ''
     @ ''exercises\<newline>''
     @ [CHR 0xEF, CHR 0xA3, CHR 0xBF, CHR 0xC3, CHR 0xBC, CHR 0xC3, CHR 0xAC, CHR 0xC3, CHR 0xA4]
     @ '' **Dashboard**: View your progress and test results\<newline>''
     @ [CHR 0xEF, CHR 0xA3, CHR 0xBF, CHR 0xC3, CHR 0xBC, CHR 0xC3, CHR 0xAD, CHR 0xC2, CHR 0xA8]
     @ '' **Chat**: Talk about what's on your mind\<newline>\<newline>What ''
     @ ''would you like to explore?''"

definition goodbye_response :: string where
  "goodbye_response =
     ''Take care! Remember, I'm here whenever you need support. Don't ''
     @ ''hesitate to come back if you need help with your mental health journey.''"

definition thanks_response :: string where
  "thanks_response =
     ''You're very welcome! I'm glad I could help. Feel free to reach out ''
     @ ''anytime you need support.''"

definition sad_response :: string where
  "sad_response =
     ''I understand you're feeling down. It's okay to feel this way. Would ''
     @ ''you like to talk about what's making you feel sad? Sometimes sharing ''
     @ ''can help.''"

definition anxious_response :: string where
  "anxious_response =
     ''I hear that you're feeling anxious. That can be really challenging. ''"

definition happy_response :: string where
  "happy_response =
     ''I'm glad to hear you're feeling positive! It's great that you're doing ''
     @ ''well. Is there anything specific you'd like to discuss or work on ''
     @ ''today?''"

definition short_fallback_response :: string where
  "short_fallback_response =
     ''I'd like to understand better. Can you tell me more about what you're ''
     @ ''experiencing? Or if you're looking for something specific, I can help ''
     @ ''you with:\<newline>''
     @ bullet
     @ '' Screening tests\<newline>''
     @ bullet
     @ '' Self-care exercises\<newline>''
     @ bullet
     @ '' Your dashboard''"

definition long_fallback_response :: string where
  "long_fallback_response =
     ''I appreciate you sharing that. What would be most helpful for you ''
     @ ''right now?''"

text \<open>\<^verbatim>\<open>if triage_recommendation:\<close> holds for a non-empty string.\<close>

definition given :: "string option \<Rightarrow> bool" where
  "given triage_recommendation =
    (triage_recommendation \<noteq> None \<and> triage_recommendation \<noteq> Some [])"

text \<open>The keyword router for a message classified as out of scope.\<close>

definition out_of_scope_response :: "string \<Rightarrow> string" where
  "out_of_scope_response message_lower =
    (if list_ex (\<lambda>k. contains k message_lower)
          [''screen'', ''phq'', ''gad'', ''assessment'', ''test'']
     then screening_nav_response
     else if list_ex (\<lambda>k. contains k message_lower)
          [''self care'', ''self-care'', ''breath'', ''breathing'', ''meditation'',
           ''mindful'', ''exercise'']
     then self_care_nav_response
     else if list_ex (\<lambda>k. contains k message_lower)
          [''dashboard'', ''progress'', ''results'', ''report'']
     then dashboard_nav_response
     else capability_menu_response)"

text \<open>
  The reply for a classified intent; \<open>None\<close> when the tag has no branch and control
  falls through to the emotion-based replies.
\<close>

definition intent_response :: "string \<Rightarrow> string \<Rightarrow> string option \<Rightarrow> string option" where
  "intent_response intent_tag message_lower triage_recommendation =
    (if intent_tag = ''out_of_scope'' then Some (out_of_scope_response message_lower)
     else if intent_tag = ''greeting'' then
       Some (greeting_response
             @ (if given triage_recommendation
                then ''\<newline>\<newline>Based on your recent assessment, I'd recommend ''
                     @ ''trying: ''
                     @ the triage_recommendation
                else []))
     else if intent_tag = ''find_screening'' then Some find_screening_response
     else if intent_tag = ''find_self_care'' then
       Some (find_self_care_response
             @ (if given triage_recommendation
                then ''Based on your recent assessment, I'd especially recommend: ''
                     @ the triage_recommendation @ ''.\<newline>\<newline>''
                else [])
             @ ''[Open Self-Care]'')
     else if intent_tag = ''view_dashboard'' then Some view_dashboard_response
     else if intent_tag = ''need_help'' then Some need_help_response
     else if intent_tag = ''goodbye'' then Some goodbye_response
     else if intent_tag = ''thanks'' then Some thanks_response
     else None)"

definition emotion_response :: "string \<Rightarrow> string \<Rightarrow> string \<Rightarrow> string option \<Rightarrow> string" where
  "emotion_response user_message message_lower emotion triage_recommendation =
    (if emotion = ''sad'' then
       sad_response
       @ (if given triage_recommendation
          then '' I'd also recommend trying: '' @ the triage_recommendation @ ''.''
          else '' You might also consider trying one of our self-care exercises.'')
     else if emotion = ''anxious'' then
       anxious_response
       @ (if given triage_recommendation
          then ''I'd recommend trying: '' @ the triage_recommendation @ ''. ''
          else ''Would it help to try a breathing exercise together? '')
       @ ''Or would you prefer to talk about what's causing your anxiety?''
     else if emotion = ''happy'' then happy_response
     else if given triage_recommendation
             \<and> list_ex (\<lambda>word. contains word message_lower)
                   [''help'', ''suggest'', ''recommend'', ''what should'']
     then ''Based on your recent assessment, I'd recommend trying: ''
          @ the triage_recommendation
          @ ''. This can help manage your symptoms. Would you like me to guide you ''
          @ ''through it?''
     else if length user_message < 20 then short_fallback_response
     else long_fallback_response
          @ (if given triage_recommendation
             then '' You might also find '' @ [CHR 0x27] @ the triage_recommendation
                  @ [CHR 0x27] @ '' helpful.''
             else []))"

text \<open>
  \<^verbatim>\<open>_generate_bot_response\<close>. The crisis reply comes first; the intent classifier is only
  consulted afterwards, with the threshold lowered by 0.2, and any exception it raises
  is swallowed.
\<close>

definition generate_bot_response ::
  "model_file \<Rightarrow> intent_state \<Rightarrow> string \<Rightarrow> string \<Rightarrow> string \<Rightarrow> string list \<Rightarrow> string option
     \<Rightarrow> string \<times> intent_state" where
  "generate_bot_response file st user_message emotion risk_level risk_keywords
       triage_recommendation =
    (let message_lower = lower user_message in
     if risk_level = ''critical'' \<or> risk_keywords \<noteq> [] then (crisis_response, st)
     else
       (let (result, st1) = predict_intent file st user_message True
                               (max 0 (DEFAULT_CONFIDENCE_THRESHOLD - 0.2));
            routed = (case result of
                        Inr (TagConfidence intent_tag confidence) \<Rightarrow>
                          intent_response intent_tag message_lower triage_recommendation
                      | _ \<Rightarrow> None)
        in case routed of
             Some response \<Rightarrow> (response, st1)
           | None \<Rightarrow>
               (emotion_response user_message message_lower emotion triage_recommendation,
                st1)))"

text \<open>
  \<^verbatim>\<open>send_message\<close>, from the point where the conversation has been resolved: the
  argument \<open>conversation\<close> is the outcome of the lookup and ownership check (\<open>None\<close>
  when it ends in HTTP 404), \<open>message\<close> the payload's message key.
\<close>

record chat_reply =
  reply_user_message :: ChatbotMessage
  reply_bot_response :: ChatbotMessage
  reply_emotional_context :: emotional_context
  reply_triage_recommendation :: "string option"

definition latest_triage_recommendation :: "db \<Rightarrow> int \<Rightarrow> string option" where
  "latest_triage_recommendation s pid =
    (let latest_phq9 = newest phq9_created_at
                         (filter (\<lambda>r. phq9_patient r = pid) (phq9_screenings s));
         latest_gad7 = newest gad7_created_at
                         (filter (\<lambda>r. gad7_patient r = pid) (gad7_screenings s))
     in if latest_phq9 \<noteq> None \<or> latest_gad7 \<noteq> None then
          (let assessment = get_comprehensive_assessment
                 (map_option phq9_total_score latest_phq9)
                 (map_option gad7_total_score latest_gad7)
                 (case latest_phq9 of None \<Rightarrow> False | Some p9 \<Rightarrow> q9_suicidal p9 \<ge> 2)
           in case recommendations assessment of [] \<Rightarrow> None | r # rs \<Rightarrow> Some r)
        else None)"

definition send_message ::
  "(string \<Rightarrow> emotions) \<Rightarrow> model_file \<Rightarrow> db \<times> intent_state \<Rightarrow> int
     \<Rightarrow> ChatbotConversation option \<Rightarrow> string option
     \<Rightarrow> chat_reply response \<times> db \<times> intent_state" where
  "send_message detect_emotions file state now conversation message =
    (let (s, st) = state in
     case conversation of
       None \<Rightarrow> (\<lparr>status = 404, body = ErrorBody ''Conversation not found''\<rparr>, s, st)
     | Some conv \<Rightarrow>
        (let user_message = strip (case message of None \<Rightarrow> [] | Some m \<Rightarrow> m) in
         if user_message = [] then
           (\<lparr>status = 400, body = ErrorBody ''Message cannot be empty''\<rparr>, s, st)
         else
           (let emotional_context = get_emotional_context detect_emotions user_message;
                (primary_emotion, confidence) = get_primary_emotion detect_emotions user_message;
                risk_level = ctx_risk_level emotional_context;
                risk_keywords = ctx_risk_keywords emotional_context;
                patient = conversation_patient conv;
                triage_recommendation = latest_triage_recommendation s patient;
                user_msg = \<lparr>message_id = next_id (map message_id (messages s)),
                             message_conversation = conversation_id conv,
                             message_type = ''user'', message_content = user_message,
                             detected_emotion = primary_emotion,
                             emotion_confidence = Some confidence,
                             message_risk_level = risk_level,
                             message_risk_keywords = risk_keywords,
                             message_created_at = now\<rparr>;
                s1 = s\<lparr>messages := messages s @ [user_msg]\<rparr>;
                (bot_response, st1) =
                   generate_bot_response file st user_message primary_emotion risk_level
                     risk_keywords triage_recommendation;
                bot_msg = \<lparr>message_id = next_id (map message_id (messages s1)),
                            message_conversation = conversation_id conv,
                            message_type = ''bot'', message_content = bot_response,
                            detected_emotion = [], emotion_confidence = None,
                            message_risk_level = [], message_risk_keywords = [],
                            message_created_at = now\<rparr>;
                s2 = s1\<lparr>messages := messages s1 @ [bot_msg]\<rparr>;
                s3 = (if risk_level = ''critical'' then
                        (let alert = \<lparr>alert_id = next_id (map alert_id (alerts s2)),
                                       alert_patient = patient, alert_type = ''crisis'',
                                       alert_message =
                                         ''Critical risk detected in chatbot conversation: ''
                                         @ take 100 user_message,
                                       is_resolved = False, alert_created_at = now,
                                       resolved_at = None\<rparr>
                         in s2\<lparr>alerts := alerts s2 @ [alert],
                               task_queue := task_queue s2
                                 @ [SendAlertNotification (alert_id alert) ''critical'']\<rparr>)
                      else s2)
            in (\<lparr>status = 200,
                 body = Data \<lparr>reply_user_message = user_msg, reply_bot_response = bot_msg,
                              reply_emotional_context = emotional_context,
                              reply_triage_recommendation = triage_recommendation\<rparr>\<rparr>,
                s3, st1))))"

text \<open>The bot reply a response carries, if any.\<close>

definition bot_reply :: "chat_reply response \<Rightarrow> string option" where
  "bot_reply r = (case body r of Data d \<Rightarrow> Some (message_content (reply_bot_response d)) | _ \<Rightarrow> None)"

definition no_emotions :: "string \<Rightarrow> emotions" where
  "no_emotions text = []"

definition alice_conversation :: ChatbotConversation where
  "alice_conversation = \<lparr>conversation_id = 1, conversation_patient = 1, session_id = ''s-1''\<rparr>"

definition crisis_and_navigation_message :: string where
  "crisis_and_navigation_message = ''I want to kill myself, any breathing exercise?''"

section \<open>Clinician-scoped lists (clinician/views.py)\<close>

text \<open>\<^verbatim>\<open>Clinician.objects.get(user=self.request.user)\<close>, unguarded in the list operations.\<close>

definition get_clinician :: "db \<Rightarrow> User \<Rightarrow> py_error + Clinician" where
  "get_clinician s user =
    (case find (\<lambda>c. clinician_user c = user_id user) (clinicians s) of
       None \<Rightarrow> Inl DoesNotExist
     | Some clinician \<Rightarrow> Inr clinician)"

text \<open>
  \<^verbatim>\<open>PatientAssignment.objects.filter(clinician=clinician, is_active=True)
  .values_list('patient', flat=True)\<close>
\<close>

definition assigned_patients :: "db \<Rightarrow> Clinician \<Rightarrow> int list" where
  "assigned_patients s clinician =
    map assignment_patient
      (filter (\<lambda>a. assignment_clinician a = clinician_id clinician \<and> assignment_is_active a)
         (assignments s))"

definition PatientTrendViewSet_get_queryset :: "db \<Rightarrow> User \<Rightarrow> py_error + PatientTrend list" where
  "PatientTrendViewSet_get_queryset s user =
    (case get_clinician s user of
       Inl e \<Rightarrow> Inl e
     | Inr clinician \<Rightarrow>
        Inr (filter (\<lambda>t. trend_patient t \<in> set (assigned_patients s clinician)) (trends s)))"

definition TreatmentPlanViewSet_get_queryset :: "db \<Rightarrow> User \<Rightarrow> py_error + TreatmentPlan list" where
  "TreatmentPlanViewSet_get_queryset s user =
    (case get_clinician s user of
       Inl e \<Rightarrow> Inl e
     | Inr clinician \<Rightarrow>
        Inr (filter (\<lambda>t. plan_patient t \<in> set (assigned_patients s clinician))
               (treatment_plans s)))"

definition ClinicalNoteViewSet_get_queryset :: "db \<Rightarrow> User \<Rightarrow> py_error + ClinicalNote list" where
  "ClinicalNoteViewSet_get_queryset s user =
    (case get_clinician s user of
       Inl e \<Rightarrow> Inl e
     | Inr clinician \<Rightarrow>
        Inr (filter (\<lambda>n. note_patient n \<in> set (assigned_patients s clinician))
               (clinical_notes s)))"

definition AlertResponseViewSet_get_queryset :: "db \<Rightarrow> User \<Rightarrow> py_error + AlertResponse list" where
  "AlertResponseViewSet_get_queryset s user =
    (case get_clinician s user of
       Inl e \<Rightarrow> Inl e
     | Inr clinician \<Rightarrow>
        (let alerts_in_scope =
               filter (\<lambda>a. alert_patient a \<in> set (assigned_patients s clinician)) (alerts s)
         in Inr (filter (\<lambda>r. response_alert r \<in> set (map alert_id alerts_in_scope))
                   (alert_responses s))))"

subsection \<open>What isolation means\<close>

definition has_active_assignment :: "db \<Rightarrow> int \<Rightarrow> int \<Rightarrow> bool" where
  "has_active_assignment s cid pid =
    list_ex (\<lambda>a. assignment_clinician a = cid \<and> assignment_patient a = pid
                 \<and> assignment_is_active a) (assignments s)"

text \<open>The rows of a result; a failed lookup of the clinician yields none.\<close>

definition rows :: "py_error + 'a list \<Rightarrow> 'a list" where
  "rows r = (case r of Inl e \<Rightarrow> [] | Inr xs \<Rightarrow> xs)"

text \<open>The patient an alert response is about: the patient of the alert it answers.\<close>

definition response_patients :: "db \<Rightarrow> AlertResponse \<Rightarrow> int list" where
  "response_patients s r =
    map alert_patient (filter (\<lambda>a. alert_id a = response_alert r) (alerts s))"

text \<open>
  The four clinician-scoped lists together, and the part of the store that is not data
  of patient \<open>pid\<close>: two stores that agree on it differ only in that patient's trends,
  plans, notes, alerts and responses to those alerts.
\<close>

definition clinician_view ::
  "db \<Rightarrow> User \<Rightarrow> (py_error + PatientTrend list) \<times> (py_error + TreatmentPlan list)
      \<times> (py_error + ClinicalNote list) \<times> (py_error + AlertResponse list)" where
  "clinician_view s user =
    (PatientTrendViewSet_get_queryset s user, TreatmentPlanViewSet_get_queryset s user,
     ClinicalNoteViewSet_get_queryset s user, AlertResponseViewSet_get_queryset s user)"

definition differ_only_in_patient :: "int \<Rightarrow> db \<Rightarrow> db \<Rightarrow> bool" where
  "differ_only_in_patient pid s s' =
    (clinicians s = clinicians s' \<and> assignments s = assignments s'
     \<and> filter (\<lambda>t. trend_patient t \<noteq> pid) (trends s)
         = filter (\<lambda>t. trend_patient t \<noteq> pid) (trends s')
     \<and> filter (\<lambda>t. plan_patient t \<noteq> pid) (treatment_plans s)
         = filter (\<lambda>t. plan_patient t \<noteq> pid) (treatment_plans s')
     \<and> filter (\<lambda>n. note_patient n \<noteq> pid) (clinical_notes s)
         = filter (\<lambda>n. note_patient n \<noteq> pid) (clinical_notes s')
     \<and> filter (\<lambda>a. alert_patient a \<noteq> pid) (alerts s)
         = filter (\<lambda>a. alert_patient a \<noteq> pid) (alerts s')
     \<and> filter (\<lambda>r. pid \<notin> set (response_patients s r)) (alert_responses s)
         = filter (\<lambda>r. pid \<notin> set (response_patients s' r)) (alert_responses s'))"

text \<open>Primary keys of alerts are unique.\<close>

definition alert_keys_unique :: "db \<Rightarrow> bool" where
  "alert_keys_unique s = distinct (map alert_id (alerts s))"

subsection \<open>A clinician with one assigned and one unassigned patient\<close>

definition dr_lee :: User where
  "dr_lee = \<lparr>user_id = 10, username = ''lee''\<rparr>"

definition dr_lee_clinician :: Clinician where
  "dr_lee_clinician = \<lparr>clinician_id = 1, clinician_user = 10\<rparr>"

definition ward :: db where
  "ward = empty_db
    \<lparr>clinicians := [dr_lee_clinician, \<lparr>clinician_id = 2, clinician_user = 11\<rparr>],
     assignments :=
       [\<lparr>assignment_id = 1, assignment_patient = 1, assignment_clinician = 1,
         assignment_is_active = True\<rparr>,
        \<lparr>assignment_id = 2, assignment_patient = 2, assignment_clinician = 1,
         assignment_is_active = False\<rparr>,
        \<lparr>assignment_id = 3, assignment_patient = 2, assignment_clinician = 2,
         assignment_is_active = True\<rparr>],
     trends :=
       [\<lparr>trend_id = 1, trend_patient = 1, trend_date = 100, trend_risk_level = ''low''\<rparr>,
        \<lparr>trend_id = 2, trend_patient = 2, trend_date = 100, trend_risk_level = ''high''\<rparr>],
     treatment_plans :=
       [\<lparr>plan_id = 1, plan_patient = 2, plan_clinician = 2, diagnosis = ''GAD''\<rparr>,
        \<lparr>plan_id = 2, plan_patient = 1, plan_clinician = 1, diagnosis = ''MDD''\<rparr>],
     clinical_notes :=
       [\<lparr>note_id = 1, note_patient = 1, note_clinician = 1, note_content = ''intake''\<rparr>,
        \<lparr>note_id = 2, note_patient = 2, note_clinician = 2, note_content = ''intake''\<rparr>],
     alerts :=
       [\<lparr>alert_id = 1, alert_patient = 1, alert_type = ''phq9_high_score'',
         alert_message = ''high'', is_resolved = True, alert_created_at = 50,
         resolved_at = Some 60\<rparr>,
        \<lparr>alert_id = 2, alert_patient = 2, alert_type = ''crisis'',
         alert_message = ''crisis'', is_resolved = True, alert_created_at = 51,
         resolved_at = Some 61\<rparr>],
     alert_responses :=
       [\<lparr>response_id = 1, response_alert = 2, response_clinician = 2,
         response_text = ''called''\<rparr>,
        \<lparr>response_id = 2, response_alert = 1, response_clinician = 1,
         response_text = ''reviewed''\<rparr>]\<rparr>"

text \<open>The same ward after patient 2's data has changed.\<close>

definition ward_changed :: db where
  "ward_changed = ward
    \<lparr>trends :=
       [\<lparr>trend_id = 1, trend_patient = 1, trend_date = 100, trend_risk_level = ''low''\<rparr>,
        \<lparr>trend_id = 2, trend_patient = 2, trend_date = 100, trend_risk_level = ''critical''\<rparr>,
        \<lparr>trend_id = 3, trend_patient = 2, trend_date = 101, trend_risk_level = ''critical''\<rparr>],
     treatment_plans :=
       [\<lparr>plan_id = 2, plan_patient = 1, plan_clinician = 1, diagnosis = ''MDD''\<rparr>],
     clinical_notes :=
       [\<lparr>note_id = 1, note_patient = 1, note_clinician = 1, note_content = ''intake''\<rparr>,
        \<lparr>note_id = 2, note_patient = 2, note_clinician = 2, note_content = ''revised''\<rparr>],
     alerts :=
       [\<lparr>alert_id = 1, alert_patient = 1, alert_type = ''phq9_high_score'',
         alert_message = ''high'', is_resolved = True, alert_created_at = 50,
         resolved_at = Some 60\<rparr>,
        \<lparr>alert_id = 2, alert_patient = 2, alert_type = ''crisis'',
         alert_message = ''crisis'', is_resolved = True, alert_created_at = 51,
         resolved_at = Some 61\<rparr>,
        \<lparr>alert_id = 3, alert_patient = 2, alert_type = ''score_increase'',
         alert_message = ''up'', is_resolved = True, alert_created_at = 70,
         resolved_at = Some 71\<rparr>],
     alert_responses :=
       [\<lparr>response_id = 2, response_alert = 1, response_clinician = 1,
         response_text = ''reviewed''\<rparr>,
        \<lparr>response_id = 3, response_alert = 3, response_clinician = 2,
         response_text = ''seen''\<rparr>]\<rparr>"

section \<open>Verified properties\<close>

subsection \<open>Scoring on save\<close>

text \<open>
  C1. For every PHQ-9 record whose nine answers lie in 0..3, saving it sets total\_score to
  the sum of the nine answers, severity\_level by the bands (up to 4 minimal, up to 9 mild,
  up to 14 moderate, up to 19 moderately\_severe, else severe), and risk\_level to
  critical with both flags true exactly when the total is at least 15 or q9 is at least 2;
  otherwise high with the teleconsult flag true when the total is at least 10; otherwise
  medium when the total is at least 5; otherwise low.
\<close>

theorem phq9_save_score_severity_risk:
  "in_range (phq9_answers self) \<Longrightarrow>
   (let r = PHQ9Screening_save self;
        total = phq9_total_score r;
        crit = (total \<ge> 15 \<or> q9_suicidal self \<ge> 2)
    in total = sum_list (phq9_answers self)
     \<and> 0 \<le> total \<and> total \<le> 27
     \<and> phq9_severity_level r =
          (if total \<le> 4 then ''minimal''
           else if total \<le> 9 then ''mild''
           else if total \<le> 14 then ''moderate''
           else if total \<le> 19 then ''moderately_severe''
           else ''severe'')
     \<and> ((phq9_risk_level r = ''critical'' \<and> phq9_requires_immediate_attention r
           \<and> phq9_requires_teleconsult r) \<longleftrightarrow> crit)
     \<and> (\<not> crit \<and> total \<ge> 10 \<longrightarrow> phq9_risk_level r = ''high'' \<and> phq9_requires_teleconsult r)
     \<and> (\<not> crit \<and> total < 10 \<and> total \<ge> 5 \<longrightarrow> phq9_risk_level r = ''medium'')
     \<and> (\<not> crit \<and> total < 5 \<longrightarrow> phq9_risk_level r = ''low''))"
  by (simp add: PHQ9Screening_save_def phq9_answers_def in_range_def Let_def)

theorem phq9_save_score_severity_risk_witness:
  "in_range (phq9_answers (new_phq9 1 [0, 1, 2, 1, 0, 2, 1, 0, 1]))
   \<and> phq9_total_score (PHQ9Screening_save (new_phq9 1 [0, 1, 2, 1, 0, 2, 1, 0, 1])) = 8
   \<and> phq9_severity_level (PHQ9Screening_save (new_phq9 1 [0, 1, 2, 1, 0, 2, 1, 0, 1])) = ''mild''
   \<and> phq9_risk_level (PHQ9Screening_save (new_phq9 1 [0, 1, 2, 1, 0, 2, 1, 0, 1])) = ''medium''"
proof -
  have h: "in_range (phq9_answers (new_phq9 1 [0, 1, 2, 1, 0, 2, 1, 0, 1]))"
    by (simp add: in_range_def phq9_answers_def new_phq9_def)
  have s: "sum_list (phq9_answers (new_phq9 1 [0, 1, 2, 1, 0, 2, 1, 0, 1])) = 8"
    by (simp add: phq9_answers_def new_phq9_def)
  have q: "q9_suicidal (new_phq9 1 [0, 1, 2, 1, 0, 2, 1, 0, 1]) = 1"
    by (simp add: new_phq9_def)
  show ?thesis
    using h phq9_save_score_severity_risk [OF h] by (simp add: Let_def s q)
qed

lemma validate_answers_ints:
  "in_range qs \<Longrightarrow> validate_answers name i (map PInt qs) = None"
  by (induction qs arbitrary: i) (simp_all add: in_range_def)

lemma sum_int_values: "int_value \<circ> PInt = (\<lambda>q. q)"
  by (simp add: fun_eq_iff)

lemma save_phq9_total: "phq9_total_score (PHQ9Screening_save self) = sum_list (phq9_answers self)"
  by (simp add: PHQ9Screening_save_def phq9_answers_def Let_def)

lemma save_phq9_severity:
  "phq9_severity_level (PHQ9Screening_save self) = get_phq9_severity (sum_list (phq9_answers self))"
  by (simp add: PHQ9Screening_save_def phq9_answers_def get_phq9_severity_def Let_def)

lemma save_gad7_total: "gad7_total_score (GAD7Screening_save self) = sum_list (gad7_answers self)"
  by (simp add: GAD7Screening_save_def gad7_answers_def Let_def)

lemma save_gad7_severity:
  "gad7_severity_level (GAD7Screening_save self) = get_gad7_severity (sum_list (gad7_answers self))"
  by (simp add: GAD7Screening_save_def gad7_answers_def get_gad7_severity_def Let_def)

lemma calculate_phq9_ints:
  "length qs = 9 \<Longrightarrow> in_range qs \<Longrightarrow>
   calculate_phq9 (PList (map PInt qs)) =
     Inr \<lparr>res_total_score = sum_list qs, res_severity_level = get_phq9_severity (sum_list qs),
          res_severity_label = get_severity_label (get_phq9_severity (sum_list qs))\<rparr>"
  by (auto simp add: calculate_phq9_def validate_answers_ints sum_int_values Let_def)

lemma calculate_gad7_ints:
  "length qs = 7 \<Longrightarrow> in_range qs \<Longrightarrow>
   calculate_gad7 (PList (map PInt qs)) =
     Inr \<lparr>res_total_score = sum_list qs, res_severity_level = get_gad7_severity (sum_list qs),
          res_severity_label = get_severity_label (get_gad7_severity (sum_list qs))\<rparr>"
  by (auto simp add: calculate_gad7_def validate_answers_ints sum_int_values Let_def)

subsection \<open>The rule engine's scoring agrees with the save path\<close>

text \<open>
  C3. For every vector of nine integers in 0..3, calculate\_phq9 returns the total\_score
  and severity\_level that PHQ9Screening.save derives for a record holding those nine
  answers; likewise calculate\_gad7 and GAD7Screening.save for seven integers in 0..3.
\<close>

theorem calculate_agrees_with_save:
  "(phq9_answers p = qs9 \<and> in_range qs9 \<longrightarrow>
      (\<exists>res. calculate_phq9 (PList (map PInt qs9)) = Inr res
         \<and> res_total_score res = phq9_total_score (PHQ9Screening_save p)
         \<and> res_severity_level res = phq9_severity_level (PHQ9Screening_save p)))
   \<and> (gad7_answers g = qs7 \<and> in_range qs7 \<longrightarrow>
      (\<exists>res. calculate_gad7 (PList (map PInt qs7)) = Inr res
         \<and> res_total_score res = gad7_total_score (GAD7Screening_save g)
         \<and> res_severity_level res = gad7_severity_level (GAD7Screening_save g)))"
proof (intro conjI impI)
  assume a: "phq9_answers p = qs9 \<and> in_range qs9"
  then have l: "length qs9 = 9" by (auto simp: phq9_answers_def)
  show "\<exists>res. calculate_phq9 (PList (map PInt qs9)) = Inr res
         \<and> res_total_score res = phq9_total_score (PHQ9Screening_save p)
         \<and> res_severity_level res = phq9_severity_level (PHQ9Screening_save p)"
    using a by (simp add: calculate_phq9_ints [OF l] save_phq9_total save_phq9_severity)
next
  assume a: "gad7_answers g = qs7 \<and> in_range qs7"
  then have l: "length qs7 = 7" by (auto simp: gad7_answers_def)
  show "\<exists>res. calculate_gad7 (PList (map PInt qs7)) = Inr res
         \<and> res_total_score res = gad7_total_score (GAD7Screening_save g)
         \<and> res_severity_level res = gad7_severity_level (GAD7Screening_save g)"
    using a by (simp add: calculate_gad7_ints [OF l] save_gad7_total save_gad7_severity)
qed

theorem calculate_agrees_with_save_witness:
  "phq9_answers (new_phq9 1 [0, 1, 2, 1, 0, 2, 1, 0, 3]) = [0, 1, 2, 1, 0, 2, 1, 0, 3]
   \<and> in_range [0, 1, 2, 1, 0, 2, 1, 0, 3]
   \<and> gad7_answers (new_gad7 1 [3, 3, 3, 3, 1, 1, 1]) = [3, 3, 3, 3, 1, 1, 1]
   \<and> in_range [3, 3, 3, 3, 1, 1, 1]
   \<and> (\<exists>res. calculate_phq9 (PList (map PInt [0, 1, 2, 1, 0, 2, 1, 0, 3])) = Inr res
         \<and> res_total_score res = phq9_total_score (PHQ9Screening_save (new_phq9 1 [0, 1, 2, 1, 0, 2, 1, 0, 3]))
         \<and> res_severity_level res = phq9_severity_level (PHQ9Screening_save (new_phq9 1 [0, 1, 2, 1, 0, 2, 1, 0, 3])))
   \<and> (\<exists>res. calculate_gad7 (PList (map PInt [3, 3, 3, 3, 1, 1, 1])) = Inr res
         \<and> res_total_score res = gad7_total_score (GAD7Screening_save (new_gad7 1 [3, 3, 3, 3, 1, 1, 1]))
         \<and> res_severity_level res = gad7_severity_level (GAD7Screening_save (new_gad7 1 [3, 3, 3, 3, 1, 1, 1])))"
proof -
  have h1: "phq9_answers (new_phq9 1 [0, 1, 2, 1, 0, 2, 1, 0, 3]) = [0, 1, 2, 1, 0, 2, 1, 0, 3]"
    by (simp add: phq9_answers_def new_phq9_def)
  have h2: "in_range [0, 1, 2, 1, 0, 2, 1, 0, 3]" by (simp add: in_range_def)
  have h3: "gad7_answers (new_gad7 1 [3, 3, 3, 3, 1, 1, 1]) = [3, 3, 3, 3, 1, 1, 1]"
    by (simp add: gad7_answers_def new_gad7_def)
  have h4: "in_range [3, 3, 3, 3, 1, 1, 1]" by (simp add: in_range_def)
  show ?thesis
    using h1 h2 h3 h4
      calculate_agrees_with_save [of "new_phq9 1 [0, 1, 2, 1, 0, 2, 1, 0, 3]" "[0, 1, 2, 1, 0, 2, 1, 0, 3]"
         "new_gad7 1 [3, 3, 3, 3, 1, 1, 1]" "[3, 3, 3, 3, 1, 1, 1]"]
    by blast
qed

subsection \<open>Rejected submissions leave the store untouched\<close>

lemma validate_answers_bad:
  "list_ex bad_answer xs \<Longrightarrow> \<exists>m. validate_answers name i xs = Some (ValueError m)"
  by (induction xs arbitrary: i) (auto simp: bad_answer_def)

lemma calculate_phq9_rejects:
  assumes "length xs \<noteq> 9 \<or> list_ex bad_answer xs"
  shows "\<exists>m. calculate_phq9 (PList xs) = Inl (ValueError m)"
proof (cases "xs = [] \<or> length xs \<noteq> 9")
  case True
  then show ?thesis by (auto simp: calculate_phq9_def)
next
  case False
  with assms have "list_ex bad_answer xs" by simp
  from validate_answers_bad [OF this, of "''PHQ-9''" 0]
  obtain m where "validate_answers ''PHQ-9'' 0 xs = Some (ValueError m)" by blast
  with False show ?thesis by (simp add: calculate_phq9_def)
qed

lemma calculate_gad7_rejects:
  assumes "length xs \<noteq> 7 \<or> list_ex bad_answer xs"
  shows "\<exists>m. calculate_gad7 (PList xs) = Inl (ValueError m)"
proof (cases "xs = [] \<or> length xs \<noteq> 7")
  case True
  then show ?thesis by (auto simp: calculate_gad7_def)
next
  case False
  with assms have "list_ex bad_answer xs" by simp
  from validate_answers_bad [OF this, of "''GAD-7''" 0]
  obtain m where "validate_answers ''GAD-7'' 0 xs = Some (ValueError m)" by blast
  with False show ?thesis by (simp add: calculate_gad7_def)
qed

lemma submit_phq9_invalid:
  assumes "invalid_answers 9 (data_answers req)"
  shows "status (fst (submit_phq9 s now req)) = 400 \<and> snd (submit_phq9 s now req) = s"
proof (cases "data_answers req")
  case None
  then show ?thesis by (simp add: submit_phq9_def)
next
  case (Some a)
  with assms obtain xs where a: "a = PList xs" and bad: "length xs \<noteq> 9 \<or> list_ex bad_answer xs"
    by (auto simp: invalid_answers_def split: pyval.splits)
  from calculate_phq9_rejects [OF bad] obtain m where "calculate_phq9 (PList xs) = Inl (ValueError m)"
    by blast
  with Some a show ?thesis by (simp add: submit_phq9_def Let_def)
qed

lemma submit_gad7_invalid:
  assumes "invalid_answers 7 (data_answers req)"
  shows "status (fst (submit_gad7 s now req)) = 400 \<and> snd (submit_gad7 s now req) = s"
proof (cases "data_answers req")
  case None
  then show ?thesis by (simp add: submit_gad7_def)
next
  case (Some a)
  with assms obtain xs where a: "a = PList xs" and bad: "length xs \<noteq> 7 \<or> list_ex bad_answer xs"
    by (auto simp: invalid_answers_def split: pyval.splits)
  from calculate_gad7_rejects [OF bad] obtain m where "calculate_gad7 (PList xs) = Inl (ValueError m)"
    by blast
  with Some a show ?thesis by (simp add: submit_gad7_def Let_def)
qed

text \<open>
  JSON booleans pass the test \<^verbatim>\<open>isinstance(answer, int)\<close> and count as 0 and 1: an array
  of nine \<^verbatim>\<open>true\<close> is scored as nine ones.
\<close>

lemma boolean_answers_pass_validation:
  "calculate_phq9 (PList (replicate 9 (PBool True))) =
     Inr \<lparr>res_total_score = 9, res_severity_level = ''mild'', res_severity_label = ''Mild''\<rparr>"
  by code_simp

text \<open>
  C10. If the answers array submitted to submit\_phq9 or submit\_gad7 fails validation
  (missing, wrong length, an entry that is not an integer, or an entry outside 0..3), the
  endpoint answers HTTP 400 and the store is exactly the store before the request: no
  account or patient is created, no screening is persisted, and no alert, referral or
  notification is produced. An entry is an integer in the sense of the code's own test
  \<^verbatim>\<open>isinstance(answer, int)\<close>.
\<close>

theorem invalid_answers_rejected_store_unchanged:
  "(invalid_answers 9 (data_answers req) \<longrightarrow>
      status (fst (submit_phq9 s now req)) = 400 \<and> snd (submit_phq9 s now req) = s)
   \<and> (invalid_answers 7 (data_answers req) \<longrightarrow>
      status (fst (submit_gad7 s now req)) = 400 \<and> snd (submit_gad7 s now req) = s)"
  using submit_phq9_invalid submit_gad7_invalid by blast

theorem invalid_answers_rejected_store_unchanged_witness:
  "invalid_answers 9 (data_answers (phq9_request [0, 1, 2, 1, 0, 2, 1, 4]))
   \<and> invalid_answers 7 (data_answers (phq9_request [0, 1, 2, 1, 0, 2, 1, 4]))
   \<and> status (fst (submit_phq9 after_first_submission 2000 (phq9_request [0, 1, 2, 1, 0, 2, 1, 4]))) = 400
   \<and> snd (submit_phq9 after_first_submission 2000 (phq9_request [0, 1, 2, 1, 0, 2, 1, 4]))
       = after_first_submission
   \<and> status (fst (submit_gad7 after_first_submission 2000 (phq9_request [0, 1, 2, 1, 0, 2, 1, 4]))) = 400
   \<and> snd (submit_gad7 after_first_submission 2000 (phq9_request [0, 1, 2, 1, 0, 2, 1, 4]))
       = after_first_submission"
proof -
  have h9: "invalid_answers 9 (data_answers (phq9_request [0, 1, 2, 1, 0, 2, 1, 4]))"
    by (simp add: invalid_answers_def phq9_request_def)
  have h7: "invalid_answers 7 (data_answers (phq9_request [0, 1, 2, 1, 0, 2, 1, 4]))"
    by (simp add: invalid_answers_def phq9_request_def)
  show ?thesis
    using h9 h7
      invalid_answers_rejected_store_unchanged
        [of "phq9_request [0, 1, 2, 1, 0, 2, 1, 4]" after_first_submission 2000]
    by blast
qed

subsection \<open>Triage for an unknown patient\<close>

text \<open>
  C7 (as amended). For every patient\_id that does not identify an existing Patient,
  process\_triage fails, for any survey\_type, score and severity\_level, with a ValueError
  whose message is "Patient with ID <id> not found"; nothing is written, and the
  submission handlers answer a ValueError with HTTP 400.
\<close>

theorem process_triage_unknown_patient:
  "pid \<notin> patient_id ` set (patients s) \<Longrightarrow>
   process_triage s now pid survey_type score severity_level =
     Inl (ValueError (''Patient with ID '' @ str_int pid @ '' not found''))
   \<and> status (exception_response (ValueError (''Patient with ID '' @ str_int pid @ '' not found''))
              :: survey_response response) = 400"
proof -
  assume "pid \<notin> patient_id ` set (patients s)"
  then have "find (\<lambda>p. patient_id p = pid) (patients s) = None"
    by (auto simp: find_None_iff)
  then show ?thesis by (simp add: process_triage_def)
qed

theorem process_triage_unknown_patient_witness:
  "7 \<notin> patient_id ` set (patients after_first_submission)
   \<and> process_triage after_first_submission 2000 7 ''gad7'' 12 ''moderate'' =
       Inl (ValueError (''Patient with ID '' @ str_int 7 @ '' not found''))"
proof -
  have h: "7 \<notin> patient_id ` set (patients after_first_submission)"
    by code_simp
  show ?thesis
    using h process_triage_unknown_patient [OF h, of 2000 "''gad7''" 12 "''moderate''"]
    by blast
qed

text \<open>
  The claim as first stated (the failure is a not-found error, the class answered with
  HTTP 404) does not hold: for patient 7 in the empty store the failure is a ValueError.
\<close>

theorem process_triage_not_found_counterexample:
  "\<not> fails_with_not_found (process_triage empty_db 0 7 ''phq9'' 3 ''minimal'')"
  by (simp add: fails_with_not_found_def process_triage_def empty_db_def)

subsection \<open>The trend rule after the new screening has been saved\<close>

text \<open>
  C5. The patient has two PHQ-9 screenings three days apart with totals 8 and 14, and
  process\_triage runs for the second one after it has been saved, as the submission
  handler does. The lookup of the previous screening finds the screening just saved, so
  the increase is 0: no alert is created and the action is RecommendSelfCare, where the
  rule's description asks for TriggerClinicianAlert and a score\_increase alert.
\<close>

theorem trend_rule_sees_the_saved_screening:
  "map phq9_total_score (phq9_screenings after_second_saved) = [8, 14]
   \<and> map phq9_created_at (phq9_screenings after_second_saved) = [1000, 1000 + days 3]
   \<and> map phq9_patient (phq9_screenings after_second_saved) = [1, 1]
   \<and> (case process_triage after_second_saved (1000 + days 3) 1 ''phq9'' 14 ''moderate'' of
         Inr (r, s') \<Rightarrow> triageAction r = ''RecommendSelfCare'' \<and> \<not> alertCreated r
              \<and> alerts s' = []
       | Inl e \<Rightarrow> False)
   \<and> (case submit_phq9 after_first_submission (1000 + days 3)
               (phq9_request [2, 2, 2, 2, 2, 2, 1, 1, 0]) of
         (r, s') \<Rightarrow> status r = 201 \<and> alerts s' = []
           \<and> (case body r of Data d \<Rightarrow> resp_triageAction d = ''RecommendSelfCare''
                | _ \<Rightarrow> False))"
  by code_simp

subsection \<open>The latest screening\<close>

lemma first_by_pk_None: "first_by_pk pk rs = None \<longleftrightarrow> rs = []"
  by (cases rs) (auto split: option.splits if_splits)

lemma first_by_pk_least:
  "first_by_pk pk rs = Some m \<Longrightarrow> m \<in> set rs \<and> (\<forall>r \<in> set rs. pk m \<le> pk r)"
proof (induction rs arbitrary: m)
  case Nil
  then show ?case by simp
next
  case (Cons r rs)
  show ?case
  proof (cases "first_by_pk pk rs")
    case None
    then have "rs = []" by (simp add: first_by_pk_None)
    with Cons.prems None show ?thesis by simp
  next
    case (Some m')
    from Cons.IH [OF Some] have ih: "m' \<in> set rs" "\<forall>x \<in> set rs. pk m' \<le> pk x" by auto
    show ?thesis
    proof (cases "pk m' < pk r")
      case True
      with Cons.prems Some have "m = m'" by simp
      with ih True show ?thesis by auto
    next
      case False
      with Cons.prems Some have "m = r" by simp
      with ih False show ?thesis by force
    qed
  qed
qed

lemma latest_no_screenings:
  "find (\<lambda>p. patient_user p = user_id user) (patients s) = Some patient \<Longrightarrow>
   filter (\<lambda>r. phq9_patient r = patient_id patient) (phq9_screenings s) = [] \<Longrightarrow>
   PHQ9ScreeningViewSet_latest s user = Inr \<lparr>status = 404, body = MessageBody ''No screenings found''\<rparr>"
  by (simp add: PHQ9ScreeningViewSet_latest_def)

text \<open>
  C6. The latest operation is to return the caller's screening with the most recent
  creation time. The patient below has two PHQ-9 screenings (keys 1 and 2, the second
  created three days after the first) and, in a second store, two GAD-7 screenings; the
  operation answers with the screening of key 1, the oldest, because the query has no
  ordering and the first row by primary key is taken.
\<close>

theorem latest_returns_the_oldest_screening:
  "map (\<lambda>r. (phq9_id r, phq9_created_at r, phq9_total_score r)) (phq9_screenings after_second_saved)
     = [(1, 1000, 8), (2, 1000 + days 3, 14)]
   \<and> (case PHQ9ScreeningViewSet_latest after_second_saved alice of
         Inr r \<Rightarrow> status r = 200
           \<and> (case body r of
                 Data x \<Rightarrow> phq9_id x = 1 \<and> phq9_created_at x = 1000 \<and> phq9_total_score x = 8
               | _ \<Rightarrow> False)
       | Inl e \<Rightarrow> False)
   \<and> map (\<lambda>r. (gad7_id r, gad7_created_at r, gad7_total_score r)) (gad7_screenings after_two_gad7)
     = [(1, 1000, 7), (2, 1000 + days 3, 12)]
   \<and> (case GAD7ScreeningViewSet_latest after_two_gad7 alice of
         Inr r \<Rightarrow> status r = 200
           \<and> (case body r of
                 Data x \<Rightarrow> gad7_id x = 1 \<and> gad7_created_at x = 1000 \<and> gad7_total_score x = 7
               | _ \<Rightarrow> False)
       | Inl e \<Rightarrow> False)"
  by code_simp

subsection \<open>Recommended pathways\<close>

text \<open>
  C8 (as amended). The recommended operation returns exactly the active pathways whose
  target\_severity equals the tier. When the caller has both a PHQ-9 and a GAD-7 screening
  the tier is severe if the maximum of the two totals is at least 15, moderate if at
  least 10, mild if at least 5, else minimal; when either instrument has no screening
  the tier is minimal. Stated for callers for whom the screening the lookup takes is their
  most recent one.
\<close>

theorem recommended_pathways_by_tier:
  assumes "find (\<lambda>p. patient_user p = user_id user) (patients s) = Some patient"
    and "P = filter (\<lambda>r. phq9_patient r = patient_id patient) (phq9_screenings s)"
    and "G = filter (\<lambda>r. gad7_patient r = patient_id patient) (gad7_screenings s)"
    and "first_by_pk phq9_id P = newest phq9_created_at P"
    and "first_by_pk gad7_id G = newest gad7_created_at G"
  shows "\<exists>target.
           SelfCarePathwayViewSet_recommended s user =
             \<lparr>status = 200,
              body = Data (filter (\<lambda>w. pathway_is_active w \<and> target_severity w = target)
                             (pathways s))\<rparr>
         \<and> (\<forall>p9 g7. newest phq9_created_at P = Some p9 \<and> newest gad7_created_at G = Some g7 \<longrightarrow>
               target =
                 (if max (phq9_total_score p9) (gad7_total_score g7) \<ge> 15 then ''severe''
                  else if max (phq9_total_score p9) (gad7_total_score g7) \<ge> 10 then ''moderate''
                  else if max (phq9_total_score p9) (gad7_total_score g7) \<ge> 5 then ''mild''
                  else ''minimal''))
         \<and> (P = [] \<or> G = [] \<longrightarrow> target = ''minimal'')"
proof -
  let ?t = "(case (newest phq9_created_at P, newest gad7_created_at G) of
               (Some p9, Some g7) \<Rightarrow>
                  tier_of_score (max (phq9_total_score p9) (gad7_total_score g7))
             | _ \<Rightarrow> ''minimal'')"
  have r: "SelfCarePathwayViewSet_recommended s user =
             \<lparr>status = 200,
              body = Data (filter (\<lambda>w. pathway_is_active w \<and> target_severity w = ?t)
                             (pathways s))\<rparr>"
    using assms by (simp add: SelfCarePathwayViewSet_recommended_def Let_def)
  have b: "\<forall>p9 g7. newest phq9_created_at P = Some p9 \<and> newest gad7_created_at G = Some g7 \<longrightarrow>
               ?t =
                 (if max (phq9_total_score p9) (gad7_total_score g7) \<ge> 15 then ''severe''
                  else if max (phq9_total_score p9) (gad7_total_score g7) \<ge> 10 then ''moderate''
                  else if max (phq9_total_score p9) (gad7_total_score g7) \<ge> 5 then ''mild''
                  else ''minimal'')"
    by (simp add: tier_of_score_def)
  have n: "P = [] \<or> G = [] \<longrightarrow> ?t = ''minimal''"
    by (auto split: option.splits)
  from r b n show ?thesis by blast
qed

theorem recommended_pathways_by_tier_witness:
  "find (\<lambda>p. patient_user p = user_id alice) (patients both_instruments) = Some alice_patient
   \<and> first_by_pk phq9_id
        (filter (\<lambda>r. phq9_patient r = patient_id alice_patient) (phq9_screenings both_instruments))
      = newest phq9_created_at
        (filter (\<lambda>r. phq9_patient r = patient_id alice_patient) (phq9_screenings both_instruments))
   \<and> first_by_pk gad7_id
        (filter (\<lambda>r. gad7_patient r = patient_id alice_patient) (gad7_screenings both_instruments))
      = newest gad7_created_at
        (filter (\<lambda>r. gad7_patient r = patient_id alice_patient) (gad7_screenings both_instruments))
   \<and> (\<exists>target.
         SelfCarePathwayViewSet_recommended both_instruments alice =
           \<lparr>status = 200,
            body = Data (filter (\<lambda>w. pathway_is_active w \<and> target_severity w = target)
                           (pathways both_instruments))\<rparr>)"
proof -
  have h1: "find (\<lambda>p. patient_user p = user_id alice) (patients both_instruments)
              = Some alice_patient"
    by code_simp
  have h4: "first_by_pk phq9_id
        (filter (\<lambda>r. phq9_patient r = patient_id alice_patient) (phq9_screenings both_instruments))
      = newest phq9_created_at
        (filter (\<lambda>r. phq9_patient r = patient_id alice_patient) (phq9_screenings both_instruments))"
    by code_simp
  have h5: "first_by_pk gad7_id
        (filter (\<lambda>r. gad7_patient r = patient_id alice_patient) (gad7_screenings both_instruments))
      = newest gad7_created_at
        (filter (\<lambda>r. gad7_patient r = patient_id alice_patient) (gad7_screenings both_instruments))"
    by code_simp
  show ?thesis
    using h1 h4 h5 recommended_pathways_by_tier [OF h1 refl refl h4 h5]
    by blast
qed

text \<open>
  The claim as first stated takes the maximum of the latest scores that exist: a caller
  with a single PHQ-9 of total 20 and no GAD-7 would get the severe pathways. The code
  answers with the minimal ones.
\<close>

theorem recommended_needs_both_instruments_counterexample:
  "find (\<lambda>p. patient_user p = user_id alice) (patients only_severe_phq9) = Some alice_patient
   \<and> map phq9_total_score (phq9_screenings only_severe_phq9) = [20]
   \<and> gad7_screenings only_severe_phq9 = []
   \<and> spec_recommended_tier only_severe_phq9 alice_patient = ''severe''
   \<and> SelfCarePathwayViewSet_recommended only_severe_phq9 alice
        \<noteq> \<lparr>status = 200, body = Data (spec_recommended only_severe_phq9 alice_patient)\<rparr>"
  by code_simp

subsection \<open>Blank input to the intent recognizer\<close>

lemma all_dropWhile: "(\<forall>x \<in> set (dropWhile P xs). P x) \<longleftrightarrow> (\<forall>x \<in> set xs. P x)"
  by (induction xs) auto

lemma strip_blank: "strip text = [] \<longleftrightarrow> blank text"
  by (simp add: strip_def dropWhile_eq_Nil_conv all_dropWhile blank_def list_all_iff)

lemma method_blank:
  "blank text \<Longrightarrow> recognizer_pipeline self = Some p \<Longrightarrow>
   IntentRecognizer_predict_intent self calls text rc = (Inr (unknown_result rc), calls)"
  by (simp add: IntentRecognizer_predict_intent_def strip_blank)

text \<open>
  C9 (as amended). For every empty or whitespace-only input the pipeline is not invoked
  and the confidence is 0. IntentRecognizer.predict\_intent returns the tag unknown. The
  module-level predict\_intent then applies its threshold to that confidence: with a
  loaded model it returns out\_of\_scope for every positive threshold and unknown only for
  a threshold that is not positive; when the model file is missing it returns unknown.
\<close>

theorem blank_input_short_circuit:
  assumes "blank text"
    and "recognizer_instance st = Some self \<and> recognizer_pipeline self = Some p
         \<or> recognizer_instance st = None \<and> file = ModelFile (Some p) \<and> self = \<lparr>recognizer_pipeline = Some p\<rparr>"
  shows "IntentRecognizer_predict_intent self (model_calls st) text True
           = (Inr (TagConfidence ''unknown'' 0), model_calls st)
       \<and> predict_intent file st text True threshold
           = (Inr (TagConfidence (if 0 < threshold then ''out_of_scope'' else ''unknown'') 0),
              st\<lparr>recognizer_instance := Some self\<rparr>)
       \<and> predict_intent file st text False threshold
           = (Inr (Tag (if 0 < threshold then ''out_of_scope'' else ''unknown'')),
              st\<lparr>recognizer_instance := Some self\<rparr>)
       \<and> predict_intent NoModelFile (st\<lparr>recognizer_instance := None\<rparr>) text True threshold
           = (Inr (TagConfidence ''unknown'' 0), st\<lparr>recognizer_instance := None\<rparr>)"
proof -
  have p: "recognizer_pipeline self = Some p" using assms(2) by auto
  have m: "\<And>calls rc. IntentRecognizer_predict_intent self calls text rc = (Inr (unknown_result rc), calls)"
    using method_blank [OF assms(1) p] by simp
  have r: "(case recognizer_instance st of Some r \<Rightarrow> Inr r | None \<Rightarrow> new_IntentRecognizer file) = Inr self"
    using assms(2) by (auto simp: new_IntentRecognizer_def)
  show ?thesis
    unfolding predict_intent_def r
    by (simp add: m unknown_result_def apply_threshold_def new_IntentRecognizer_def Let_def)
qed

theorem blank_input_short_circuit_witness:
  "blank [CHR '' '', CHR 0x09]
   \<and> recognizer_instance fresh_intent_state = None
   \<and> predict_intent (ModelFile (Some greeting_pipeline)) fresh_intent_state
         [CHR '' '', CHR 0x09] True 0.6
       = (Inr (TagConfidence ''out_of_scope'' 0),
          fresh_intent_state\<lparr>recognizer_instance := Some \<lparr>recognizer_pipeline = Some greeting_pipeline\<rparr>\<rparr>)
   \<and> model_calls (snd (predict_intent (ModelFile (Some greeting_pipeline)) fresh_intent_state
         [CHR '' '', CHR 0x09] True 0.6)) = 0"
proof -
  have h1: "blank [CHR '' '', CHR 0x09]"
    by (simp add: blank_def is_space_def)
  have h2: "recognizer_instance fresh_intent_state = None"
    by (simp add: fresh_intent_state_def)
  have h3: "recognizer_instance fresh_intent_state = Some \<lparr>recognizer_pipeline = Some greeting_pipeline\<rparr>
              \<and> recognizer_pipeline \<lparr>recognizer_pipeline = Some greeting_pipeline\<rparr> = Some greeting_pipeline
            \<or> recognizer_instance fresh_intent_state = None
              \<and> ModelFile (Some greeting_pipeline) = ModelFile (Some greeting_pipeline)
              \<and> \<lparr>recognizer_pipeline = Some greeting_pipeline\<rparr> = \<lparr>recognizer_pipeline = Some greeting_pipeline\<rparr>"
    using h2 by simp
  show ?thesis
    using h1 h2 blank_input_short_circuit [OF h1 h3, of "0.6"]
    by (simp add: fresh_intent_state_def)
qed

text \<open>
  The claim as first stated (the tag is unknown at any threshold) fails at the default
  threshold 0.6 with a loaded model: the tag is out\_of\_scope.
\<close>

theorem blank_input_unknown_counterexample:
  "blank ''   ''
   \<and> fst (predict_intent (ModelFile (Some greeting_pipeline)) fresh_intent_state ''   '' True
            DEFAULT_CONFIDENCE_THRESHOLD)
      = Inr (TagConfidence ''out_of_scope'' 0)
   \<and> fst (predict_intent (ModelFile (Some greeting_pipeline)) fresh_intent_state ''   '' True
            DEFAULT_CONFIDENCE_THRESHOLD)
      \<noteq> Inr (TagConfidence ''unknown'' 0)"
  by (simp add: blank_def is_space_def predict_intent_def fresh_intent_state_def
      new_IntentRecognizer_def IntentRecognizer_predict_intent_def greeting_pipeline_def strip_def
      unknown_result_def apply_threshold_def DEFAULT_CONFIDENCE_THRESHOLD_def)

subsection \<open>Crisis replies of the chatbot\<close>

lemma generate_bot_response_crisis:
  "risk_level = ''critical'' \<or> risk_keywords \<noteq> [] \<Longrightarrow>
   generate_bot_response file st user_message emotion risk_level risk_keywords recommendation
     = (crisis_response, st)"
  by (auto simp add: generate_bot_response_def Let_def)

lemma context_risk_level:
  "ctx_risk_level (get_emotional_context de text) = assess_risk_level de text"
  by (simp add: get_emotional_context_def Let_def split_def)

lemma context_risk_keywords:
  "ctx_risk_keywords (get_emotional_context de text) = detect_risk_keywords text"
  by (simp add: get_emotional_context_def Let_def split_def)

lemma risk_keywords_critical:
  "detect_risk_keywords text \<noteq> [] \<Longrightarrow> assess_risk_level de text = ''critical''"
  by (simp add: assess_risk_level_def)

lemma crisis_response_lists_help:
  "contains ''988'' crisis_response \<and> contains ''Text HOME to'' crisis_response
   \<and> contains ''741741'' crisis_response \<and> contains ''911'' crisis_response"
  by code_simp

text \<open>
  C2. For every user message for which the detector's risk level is critical or its list
  of risk keywords is not empty, the bot reply send\_message generates is the fixed crisis
  template, which names the crisis hotline 988, Text HOME to 741741 and emergency 911,
  whatever navigation keyword the message contains, whatever the intent classifier would
  answer and whatever emotion was detected.
\<close>

theorem crisis_reply_has_priority:
  assumes "strip m \<noteq> []"
    and "assess_risk_level de (strip m) = ''critical'' \<or> detect_risk_keywords (strip m) \<noteq> []"
  shows "bot_reply (fst (send_message de file (s, st) now (Some conv) (Some m)))
           = Some crisis_response
       \<and> contains ''988'' crisis_response \<and> contains ''Text HOME to'' crisis_response
       \<and> contains ''741741'' crisis_response \<and> contains ''911'' crisis_response"
proof -
  have g: "\<And>emotion recommendation.
      generate_bot_response file st (strip m) emotion (assess_risk_level de (strip m))
         (detect_risk_keywords (strip m)) recommendation = (crisis_response, st)"
    using assms(2) by (intro generate_bot_response_crisis)
  have "bot_reply (fst (send_message de file (s, st) now (Some conv) (Some m)))
           = Some crisis_response"
    using assms(1)
    by (simp add: send_message_def Let_def split_def bot_reply_def context_risk_level
        context_risk_keywords g)
  with crisis_response_lists_help show ?thesis by simp
qed

theorem crisis_reply_has_priority_witness:
  "strip crisis_and_navigation_message \<noteq> []
   \<and> detect_risk_keywords (strip crisis_and_navigation_message) \<noteq> []
   \<and> contains ''breathing'' (lower crisis_and_navigation_message)
   \<and> bot_reply (fst (send_message no_emotions (ModelFile (Some greeting_pipeline))
                       (empty_db, fresh_intent_state) 5 (Some alice_conversation)
                       (Some crisis_and_navigation_message)))
       = Some crisis_response"
proof -
  have h1: "strip crisis_and_navigation_message \<noteq> []"
    by code_simp
  have h2: "detect_risk_keywords (strip crisis_and_navigation_message) \<noteq> []"
    by code_simp
  have h3: "contains ''breathing'' (lower crisis_and_navigation_message)"
    by code_simp
  have h4: "assess_risk_level no_emotions (strip crisis_and_navigation_message) = ''critical''
            \<or> detect_risk_keywords (strip crisis_and_navigation_message) \<noteq> []"
    using h2 by simp
  show ?thesis
    using h1 h2 h3
      crisis_reply_has_priority [OF h1 h4, of "ModelFile (Some greeting_pipeline)" empty_db
        fresh_intent_state 5 alice_conversation]
    by blast
qed

subsection \<open>Isolation of clinician-scoped lists\<close>

lemma in_assigned_patients:
  "pid \<in> set (assigned_patients s c) \<longleftrightarrow> has_active_assignment s (clinician_id c) pid"
  by (auto simp: assigned_patients_def has_active_assignment_def list_ex_iff)

lemma filter_through:
  "(\<And>x. P x \<Longrightarrow> Q x) \<Longrightarrow> filter P xs = filter P (filter Q xs)"
  by (induction xs) auto

lemma unique_alert:
  assumes "alert_keys_unique s" "a \<in> set (alerts s)" "b \<in> set (alerts s)"
    and "alert_id a = alert_id b"
  shows "a = b"
  using assms by (simp add: alert_keys_unique_def distinct_map inj_on_def)

lemma in_scope_response_patients:
  assumes u: "alert_keys_unique s"
    and i: "response_alert r \<in> alert_id ` {a \<in> set (alerts s). alert_patient a \<in> A}"
  shows "set (response_patients s r) \<subseteq> A" and "response_patients s r \<noteq> []"
proof -
  from i obtain a where a: "a \<in> set (alerts s)" "alert_patient a \<in> A"
      "response_alert r = alert_id a" by auto
  show "set (response_patients s r) \<subseteq> A"
  proof
    fix pid assume "pid \<in> set (response_patients s r)"
    then obtain b where b: "b \<in> set (alerts s)" "alert_id b = response_alert r"
        "alert_patient b = pid"
      by (auto simp: response_patients_def)
    with a unique_alert [OF u a(1) b(1)] have "a = b" by simp
    with a b show "pid \<in> A" by simp
  qed
  from a show "response_patients s r \<noteq> []"
    by (auto simp: response_patients_def filter_empty_conv)
qed

lemma only_assigned_rows:
  assumes c: "get_clinician s user = Inr c" and u: "alert_keys_unique s"
  shows "(\<forall>t \<in> set (rows (PatientTrendViewSet_get_queryset s user)).
            has_active_assignment s (clinician_id c) (trend_patient t))
       \<and> (\<forall>t \<in> set (rows (TreatmentPlanViewSet_get_queryset s user)).
            has_active_assignment s (clinician_id c) (plan_patient t))
       \<and> (\<forall>n \<in> set (rows (ClinicalNoteViewSet_get_queryset s user)).
            has_active_assignment s (clinician_id c) (note_patient n))
       \<and> (\<forall>r \<in> set (rows (AlertResponseViewSet_get_queryset s user)).
            response_patients s r \<noteq> []
            \<and> (\<forall>pid \<in> set (response_patients s r). has_active_assignment s (clinician_id c) pid))"
proof -
  have t: "\<forall>t \<in> set (rows (PatientTrendViewSet_get_queryset s user)).
            has_active_assignment s (clinician_id c) (trend_patient t)"
    using c by (simp add: PatientTrendViewSet_get_queryset_def rows_def in_assigned_patients)
  have p: "\<forall>t \<in> set (rows (TreatmentPlanViewSet_get_queryset s user)).
            has_active_assignment s (clinician_id c) (plan_patient t)"
    using c by (simp add: TreatmentPlanViewSet_get_queryset_def rows_def in_assigned_patients)
  have n: "\<forall>n \<in> set (rows (ClinicalNoteViewSet_get_queryset s user)).
            has_active_assignment s (clinician_id c) (note_patient n)"
    using c by (simp add: ClinicalNoteViewSet_get_queryset_def rows_def in_assigned_patients)
  have r: "\<forall>r \<in> set (rows (AlertResponseViewSet_get_queryset s user)).
            response_patients s r \<noteq> []
            \<and> (\<forall>pid \<in> set (response_patients s r). has_active_assignment s (clinician_id c) pid)"
  proof
    fix r assume "r \<in> set (rows (AlertResponseViewSet_get_queryset s user))"
    with c have i: "response_alert r
        \<in> alert_id ` {a \<in> set (alerts s). alert_patient a \<in> set (assigned_patients s c)}"
      by (auto simp: AlertResponseViewSet_get_queryset_def rows_def Let_def)
    from in_scope_response_patients [OF u i]
    show "response_patients s r \<noteq> []
            \<and> (\<forall>pid \<in> set (response_patients s r). has_active_assignment s (clinician_id c) pid)"
      by (auto simp: in_assigned_patients)
  qed
  from t p n r show ?thesis by blast
qed

lemma unassigned_rows_absent:
  assumes c: "get_clinician s user = Inr c" and u: "alert_keys_unique s"
    and na: "\<not> has_active_assignment s (clinician_id c) pid"
  shows "(\<forall>t \<in> set (rows (PatientTrendViewSet_get_queryset s user)). trend_patient t \<noteq> pid)
       \<and> (\<forall>t \<in> set (rows (TreatmentPlanViewSet_get_queryset s user)). plan_patient t \<noteq> pid)
       \<and> (\<forall>n \<in> set (rows (ClinicalNoteViewSet_get_queryset s user)). note_patient n \<noteq> pid)
       \<and> (\<forall>r \<in> set (rows (AlertResponseViewSet_get_queryset s user)).
             pid \<notin> set (response_patients s r))"
  using only_assigned_rows [OF c u] na by blast

lemma view_noninterference:
  assumes d: "differ_only_in_patient pid s s'"
    and u: "alert_keys_unique s" and u': "alert_keys_unique s'"
    and na: "\<forall>c. get_clinician s user = Inr c \<longrightarrow> \<not> has_active_assignment s (clinician_id c) pid"
  shows "clinician_view s user = clinician_view s' user"
proof (cases "get_clinician s user")
  case (Inl e)
  moreover from d Inl have "get_clinician s' user = Inl e"
    by (simp add: get_clinician_def differ_only_in_patient_def)
  ultimately show ?thesis
    by (simp add: clinician_view_def PatientTrendViewSet_get_queryset_def
        TreatmentPlanViewSet_get_queryset_def ClinicalNoteViewSet_get_queryset_def
        AlertResponseViewSet_get_queryset_def)
next
  case (Inr c)
  from d Inr have c': "get_clinician s' user = Inr c"
    by (simp add: get_clinician_def differ_only_in_patient_def)
  define A where "A = set (assigned_patients s c)"
  from d have A': "set (assigned_patients s' c) = A"
    by (simp add: A_def assigned_patients_def differ_only_in_patient_def)
  from na Inr have pA: "pid \<notin> A" by (simp add: A_def in_assigned_patients)
  have ne: "\<And>x. x \<in> A \<Longrightarrow> x \<noteq> pid" using pA by auto
  have t: "filter (\<lambda>t. trend_patient t \<in> A) (trends s) = filter (\<lambda>t. trend_patient t \<in> A) (trends s')"
  proof -
    have "filter (\<lambda>t. trend_patient t \<in> A) (trends s)
            = filter (\<lambda>t. trend_patient t \<in> A) (filter (\<lambda>t. trend_patient t \<noteq> pid) (trends s))"
      by (rule filter_through) (simp add: ne)
    also have "\<dots> = filter (\<lambda>t. trend_patient t \<in> A) (filter (\<lambda>t. trend_patient t \<noteq> pid) (trends s'))"
      using d by (simp add: differ_only_in_patient_def)
    also have "\<dots> = filter (\<lambda>t. trend_patient t \<in> A) (trends s')"
      by (rule filter_through [symmetric]) (simp add: ne)
    finally show ?thesis .
  qed
  have p: "filter (\<lambda>t. plan_patient t \<in> A) (treatment_plans s)
             = filter (\<lambda>t. plan_patient t \<in> A) (treatment_plans s')"
  proof -
    have "filter (\<lambda>t. plan_patient t \<in> A) (treatment_plans s)
            = filter (\<lambda>t. plan_patient t \<in> A) (filter (\<lambda>t. plan_patient t \<noteq> pid) (treatment_plans s))"
      by (rule filter_through) (simp add: ne)
    also have "\<dots> = filter (\<lambda>t. plan_patient t \<in> A) (filter (\<lambda>t. plan_patient t \<noteq> pid) (treatment_plans s'))"
      using d by (simp add: differ_only_in_patient_def)
    also have "\<dots> = filter (\<lambda>t. plan_patient t \<in> A) (treatment_plans s')"
      by (rule filter_through [symmetric]) (simp add: ne)
    finally show ?thesis .
  qed
  have n: "filter (\<lambda>n. note_patient n \<in> A) (clinical_notes s)
             = filter (\<lambda>n. note_patient n \<in> A) (clinical_notes s')"
  proof -
    have "filter (\<lambda>n. note_patient n \<in> A) (clinical_notes s)
            = filter (\<lambda>n. note_patient n \<in> A) (filter (\<lambda>n. note_patient n \<noteq> pid) (clinical_notes s))"
      by (rule filter_through) (simp add: ne)
    also have "\<dots> = filter (\<lambda>n. note_patient n \<in> A) (filter (\<lambda>n. note_patient n \<noteq> pid) (clinical_notes s'))"
      using d by (simp add: differ_only_in_patient_def)
    also have "\<dots> = filter (\<lambda>n. note_patient n \<in> A) (clinical_notes s')"
      by (rule filter_through [symmetric]) (simp add: ne)
    finally show ?thesis .
  qed
  have a: "filter (\<lambda>a. alert_patient a \<in> A) (alerts s) = filter (\<lambda>a. alert_patient a \<in> A) (alerts s')"
  proof -
    have "filter (\<lambda>a. alert_patient a \<in> A) (alerts s)
            = filter (\<lambda>a. alert_patient a \<in> A) (filter (\<lambda>a. alert_patient a \<noteq> pid) (alerts s))"
      by (rule filter_through) (simp add: ne)
    also have "\<dots> = filter (\<lambda>a. alert_patient a \<in> A) (filter (\<lambda>a. alert_patient a \<noteq> pid) (alerts s'))"
      using d by (simp add: differ_only_in_patient_def)
    also have "\<dots> = filter (\<lambda>a. alert_patient a \<in> A) (alerts s')"
      by (rule filter_through [symmetric]) (simp add: ne)
    finally show ?thesis .
  qed
  define I where "I = alert_id ` {a \<in> set (alerts s). alert_patient a \<in> A}"
  have I_s: "set (map alert_id (filter (\<lambda>a. alert_patient a \<in> A) (alerts s))) = I"
    by (auto simp: I_def)
  have I_s': "alert_id ` {a \<in> set (alerts s'). alert_patient a \<in> A} = I"
  proof -
    have "set (map alert_id (filter (\<lambda>a. alert_patient a \<in> A) (alerts s'))) = I"
      using a I_s by simp
    then show ?thesis by auto
  qed
  have out: "\<And>r. response_alert r \<in> I \<Longrightarrow> pid \<notin> set (response_patients s r)"
    using in_scope_response_patients(1) [OF u, of _ A] pA unfolding I_def by blast
  have out': "\<And>r. response_alert r \<in> I \<Longrightarrow> pid \<notin> set (response_patients s' r)"
    using in_scope_response_patients(1) [OF u', of _ A] pA unfolding I_s' [symmetric] by blast
  have r: "filter (\<lambda>r. response_alert r \<in> I) (alert_responses s)
             = filter (\<lambda>r. response_alert r \<in> I) (alert_responses s')"
  proof -
    have "filter (\<lambda>r. response_alert r \<in> I) (alert_responses s)
            = filter (\<lambda>r. response_alert r \<in> I)
                (filter (\<lambda>r. pid \<notin> set (response_patients s r)) (alert_responses s))"
      by (rule filter_through) (rule out)
    also have "\<dots> = filter (\<lambda>r. response_alert r \<in> I)
                (filter (\<lambda>r. pid \<notin> set (response_patients s' r)) (alert_responses s'))"
      using d by (simp add: differ_only_in_patient_def)
    also have "\<dots> = filter (\<lambda>r. response_alert r \<in> I) (alert_responses s')"
      by (rule filter_through [symmetric]) (rule out')
    finally show ?thesis .
  qed
  have r2: "filter (\<lambda>r. response_alert r \<in> set (map alert_id (filter (\<lambda>a. alert_patient a \<in> A) (alerts s))))
               (alert_responses s)
          = filter (\<lambda>r. response_alert r \<in> set (map alert_id (filter (\<lambda>a. alert_patient a \<in> A) (alerts s'))))
               (alert_responses s')"
    using r I_s a by simp
  show ?thesis
    using Inr c' t p n r2
    by (simp add: clinician_view_def PatientTrendViewSet_get_queryset_def
        TreatmentPlanViewSet_get_queryset_def ClinicalNoteViewSet_get_queryset_def
        AlertResponseViewSet_get_queryset_def A' A_def [symmetric] Let_def)
qed

text \<open>
  C4. For each clinician-scoped list operation (patient trends, treatment plans, clinical
  notes, alert responses) the result holds only rows of patients with an active
  PatientAssignment to the calling clinician; no row of a patient without such an
  assignment appears; and two stores that differ only in the data of such a patient give
  the clinician the same four results. A response belongs to the patient of the alert it
  answers; alert keys are unique, as primary keys are.
\<close>

theorem clinician_lists_isolated:
  "alert_keys_unique s \<Longrightarrow>
   (\<forall>c. get_clinician s user = Inr c \<longrightarrow>
      (\<forall>t \<in> set (rows (PatientTrendViewSet_get_queryset s user)).
          has_active_assignment s (clinician_id c) (trend_patient t))
    \<and> (\<forall>t \<in> set (rows (TreatmentPlanViewSet_get_queryset s user)).
          has_active_assignment s (clinician_id c) (plan_patient t))
    \<and> (\<forall>n \<in> set (rows (ClinicalNoteViewSet_get_queryset s user)).
          has_active_assignment s (clinician_id c) (note_patient n))
    \<and> (\<forall>r \<in> set (rows (AlertResponseViewSet_get_queryset s user)).
          response_patients s r \<noteq> []
          \<and> (\<forall>pid \<in> set (response_patients s r). has_active_assignment s (clinician_id c) pid)))
   \<and> (\<forall>c pid. get_clinician s user = Inr c \<and> \<not> has_active_assignment s (clinician_id c) pid \<longrightarrow>
      (\<forall>t \<in> set (rows (PatientTrendViewSet_get_queryset s user)). trend_patient t \<noteq> pid)
    \<and> (\<forall>t \<in> set (rows (TreatmentPlanViewSet_get_queryset s user)). plan_patient t \<noteq> pid)
    \<and> (\<forall>n \<in> set (rows (ClinicalNoteViewSet_get_queryset s user)). note_patient n \<noteq> pid)
    \<and> (\<forall>r \<in> set (rows (AlertResponseViewSet_get_queryset s user)).
          pid \<notin> set (response_patients s r)))
   \<and> (\<forall>pid s'. differ_only_in_patient pid s s' \<and> alert_keys_unique s'
         \<and> (\<forall>c. get_clinician s user = Inr c \<longrightarrow> \<not> has_active_assignment s (clinician_id c) pid)
       \<longrightarrow> clinician_view s user = clinician_view s' user)"
  using only_assigned_rows [of s user] unassigned_rows_absent [of s user]
    view_noninterference [of _ s _ user]
  by (intro conjI allI impI) blast+

theorem clinician_lists_isolated_witness:
  "alert_keys_unique ward
   \<and> get_clinician ward dr_lee = Inr dr_lee_clinician
   \<and> \<not> has_active_assignment ward (clinician_id dr_lee_clinician) 2
   \<and> differ_only_in_patient 2 ward ward_changed
   \<and> alert_keys_unique ward_changed
   \<and> trends ward \<noteq> trends ward_changed
   \<and> clinician_view ward dr_lee = clinician_view ward_changed dr_lee
   \<and> 2 \<notin> trend_patient ` set (rows (PatientTrendViewSet_get_queryset ward dr_lee))"
proof -
  have w1: "alert_keys_unique ward" by code_simp
  have w2: "get_clinician ward dr_lee = Inr dr_lee_clinician" by code_simp
  have w3: "\<not> has_active_assignment ward (clinician_id dr_lee_clinician) 2" by code_simp
  have w4: "differ_only_in_patient 2 ward ward_changed" by code_simp
  have w5: "alert_keys_unique ward_changed" by code_simp
  have w6: "trends ward \<noteq> trends ward_changed" by code_simp
  note iso = clinician_lists_isolated [OF w1, of dr_lee]
  from iso have absent:
    "\<forall>c pid. get_clinician ward dr_lee = Inr c
        \<and> \<not> has_active_assignment ward (clinician_id c) pid \<longrightarrow>
      (\<forall>t \<in> set (rows (PatientTrendViewSet_get_queryset ward dr_lee)). trend_patient t \<noteq> pid)"
    by blast
  from iso have same:
    "\<forall>pid s'. differ_only_in_patient pid ward s' \<and> alert_keys_unique s'
         \<and> (\<forall>c. get_clinician ward dr_lee = Inr c
                \<longrightarrow> \<not> has_active_assignment ward (clinician_id c) pid)
       \<longrightarrow> clinician_view ward dr_lee = clinician_view s' dr_lee"
    by blast
  have "\<forall>c. get_clinician ward dr_lee = Inr c
           \<longrightarrow> \<not> has_active_assignment ward (clinician_id c) 2"
    using w2 w3 by simp
  with same w4 w5 have v: "clinician_view ward dr_lee = clinician_view ward_changed dr_lee"
    by blast
  from absent w2 w3
  have "\<forall>t \<in> set (rows (PatientTrendViewSet_get_queryset ward dr_lee)). trend_patient t \<noteq> 2"
    by blast
  then have a: "2 \<notin> trend_patient ` set (rows (PatientTrendViewSet_get_queryset ward dr_lee))"
    by auto
  from w1 w2 w3 w4 w5 w6 v a show ?thesis by blast
qed

end
